theory Spec2Isabelle
  imports Complex_Main "HOL-Library.Log_Nat"
begin

section \<open>Python values, errors and objects\<close>

text \<open>
  The library is dynamically typed: an attribute of a tree object holds whatever was
  assigned to it. \<open>pyval\<close> is the universe of the values that occur: \<open>None\<close>, booleans,
  integers, floats (a float is the rational it denotes), strings, lists, dictionaries
  (association lists, the first binding of a key is the live one), sets, and references
  to tree objects (addresses in the store of a tree).
\<close>

datatype pyval =
    PNone
  | PBool bool
  | PInt int
  | PFloat rat
  | PStr string
  | PList "pyval list"
  | PDict "(string \<times> pyval) list"
  | PSet "pyval list"
  | PRef nat

text \<open>Every exception the modelled code can raise is a value; \<open>Inl\<close> carries it.\<close>

datatype error =
    AssertionError string
  | AttributeError string
  | KeyError string
  | TypeError string
  | ValueError string
  | IndexError string
  | NameError string
  | OSError string
  | ZeroDivisionError string
  | ReError string
  | Unmodelled string

subsection \<open>models.py: the tree object classes\<close>

datatype variant = BaseTreeObject | Node | Leaf | Clade | Reticulation

text \<open>
  An instance is its class and its instance dictionary. The properties of
  \<open>BaseTreeObject\<close> (\<open>name\<close>, \<open>length\<close>, ...) read and write the underscored slot of the
  same name (\<open>_name\<close>, \<open>_length\<close>, ...); every other attribute lives in the instance
  dictionary under its own name.
\<close>

record tree_object =
  cls :: variant
  dict :: "string \<rightharpoonup> pyval"

definition properties :: "string list" where
  "properties = [''name'', ''branch_type'', ''length'', ''width'', ''height'',
     ''absolute_time'', ''parent'', ''traits'', ''index'', ''x'', ''y'']"

definition slot :: "string \<Rightarrow> string" where
  "slot a = (if a \<in> set properties then CHR ''_'' # a else a)"

definition py_setattr :: "tree_object \<Rightarrow> string \<Rightarrow> pyval \<Rightarrow> tree_object" where
  "py_setattr self a v = self\<lparr>dict := (dict self)(slot a \<mapsto> v)\<rparr>"

definition py_getattr :: "tree_object \<Rightarrow> string \<Rightarrow> error + pyval" where
  "py_getattr self a =
     (case dict self (slot a) of
        None \<Rightarrow> Inl (AttributeError a)
      | Some v \<Rightarrow> Inr v)"

definition new_object :: "variant \<Rightarrow> tree_object" where
  "new_object c = \<lparr>cls = c, dict = Map.empty\<rparr>"

definition BaseTreeObject_init :: "tree_object \<Rightarrow> tree_object" where
  "BaseTreeObject_init self =
     self\<lparr>dict := (dict self)
       (''_name'' \<mapsto> PNone,
        ''_branch_type'' \<mapsto> PNone,
        ''_length'' \<mapsto> PNone,
        ''_width'' \<mapsto> PNone,
        ''_height'' \<mapsto> PNone,
        ''_absolute_time'' \<mapsto> PNone,
        ''_parent'' \<mapsto> PNone,
        ''_traits'' \<mapsto> PDict [],
        ''_index'' \<mapsto> PNone,
        ''_x'' \<mapsto> PNone,
        ''_y'' \<mapsto> PNone)\<rparr>"

definition Node_init :: "tree_object \<Rightarrow> tree_object" where
  "Node_init self =
     (let self = BaseTreeObject_init self;
          self = py_setattr self ''branch_type'' (PStr ''node'');
          self = py_setattr self ''length'' (PFloat 0);
          self = py_setattr self ''children'' (PList []);
          self = py_setattr self ''child_height'' PNone;
          self = py_setattr self ''leaves'' (PSet [])
      in self)"

definition Leaf_init :: "tree_object \<Rightarrow> tree_object" where
  "Leaf_init self =
     (let self = BaseTreeObject_init self;
          self = py_setattr self ''branchType'' (PStr ''leaf'')
      in self)"

definition Clade_init :: "tree_object \<Rightarrow> string \<Rightarrow> tree_object" where
  "Clade_init self nm =
     (let self = BaseTreeObject_init self;
          self = py_setattr self ''name'' (PStr nm);
          self = py_setattr self ''branch_type'' (PStr ''leaf'');
          self = py_setattr self ''subtree'' PNone;
          self = py_setattr self ''leaves'' PNone;
          self = py_setattr self ''length'' (PFloat 0);
          self = py_setattr self ''width'' (PInt 1);
          self = py_setattr self ''last_height'' PNone;
          self = py_setattr self ''last_absolute_time'' PNone
      in self)"

definition Reticulation_init :: "tree_object \<Rightarrow> string \<Rightarrow> tree_object" where
  "Reticulation_init self nm =
     (let self = BaseTreeObject_init self;
          self = py_setattr self ''name'' (PStr nm);
          self = py_setattr self ''branch_type'' (PStr ''leaf'');
          self = py_setattr self ''length'' (PFloat 0);
          self = py_setattr self ''height'' (PFloat 0);
          self = py_setattr self ''width'' (PFloat (1 / 2));
          self = py_setattr self ''target'' PNone
      in self)"

text \<open>The capability predicates, one per class, with the overrides of the source.\<close>

fun is_leaflike :: "tree_object \<Rightarrow> bool" where
  "is_leaflike self =
     (case cls self of
        Clade \<Rightarrow> True
      | Reticulation \<Rightarrow> True
      | _ \<Rightarrow> False)"

fun is_leaf :: "tree_object \<Rightarrow> bool" where
  "is_leaf self = (case cls self of Leaf \<Rightarrow> True | _ \<Rightarrow> False)"

fun is_node :: "tree_object \<Rightarrow> bool" where
  "is_node self = (case cls self of Node \<Rightarrow> True | _ \<Rightarrow> False)"

section \<open>Strings, floats and calendar instants of the Python runtime\<close>

definition then_do :: "error + 'a \<Rightarrow> ('a \<Rightarrow> error + 'b) \<Rightarrow> error + 'b" where
  "then_do m f = (case m of Inl e \<Rightarrow> Inl e | Inr v \<Rightarrow> f v)"

subsection \<open>str.split, str.join, str.strip\<close>

text \<open>\<open>s.split(d)\<close> for a one-character separator: every occurrence cuts, so the result is
  never empty (the empty string splits into one empty field).\<close>

fun split_on :: "char \<Rightarrow> string \<Rightarrow> string list" where
  "split_on d [] = [[]]"
| "split_on d (c # cs) =
     (if c = d then [] # split_on d cs
      else (case split_on d cs of
              [] \<Rightarrow> [[c]]
            | w # ws \<Rightarrow> (c # w) # ws))"

fun join :: "string \<Rightarrow> string list \<Rightarrow> string" where
  "join d [] = []"
| "join d [w] = w"
| "join d (w # v # ws) = w @ d @ join d (v # ws)"

definition strip_chars :: "char \<Rightarrow> string \<Rightarrow> string" where
  "strip_chars c s = rev (dropWhile (\<lambda>a. a = c) (rev (dropWhile (\<lambda>a. a = c) s)))"

definition ord :: "char \<Rightarrow> nat" where
  "ord c = of_char c"

definition is_digit :: "char \<Rightarrow> bool" where
  "is_digit c = (48 \<le> ord c \<and> ord c \<le> 57)"

definition is_upper :: "char \<Rightarrow> bool" where
  "is_upper c = (65 \<le> ord c \<and> ord c \<le> 90)"

definition is_lower :: "char \<Rightarrow> bool" where
  "is_lower c = (97 \<le> ord c \<and> ord c \<le> 122)"

definition to_lower :: "char \<Rightarrow> char" where
  "to_lower c = (if is_upper c then char_of (ord c + 32) else c)"

definition is_space :: "char \<Rightarrow> bool" where
  "is_space c = (ord c \<in> {9, 10, 11, 12, 13, 28, 29, 30, 31, 32})"

fun digits_value :: "int \<Rightarrow> string \<Rightarrow> int" where
  "digits_value acc [] = acc"
| "digits_value acc (c # cs) = digits_value (10 * acc + (int (ord c) - 48)) cs"

definition int_of_digits :: "string \<Rightarrow> int" where
  "int_of_digits s = digits_value 0 s"

text \<open>The decimal numeral of a natural number, as \<open>%d\<close> prints it.\<close>

function show_nat :: "nat \<Rightarrow> string" where
  "show_nat n =
     (if n < 10 then [char_of (48 + n)]
      else show_nat (n div 10) @ [char_of (48 + n mod 10)])"
  by pat_completeness auto
termination
  by (relation "measure id") auto

subsection \<open>Floats\<close>

text \<open>
  A Python float is an IEEE 754 binary64 number. A float is modelled by the rational it
  denotes, and every float operation is the exact operation followed by \<open>fl\<close>, rounding
  to the nearest number with a 53-bit significand, ties to the even significand.
  \<open>expo x\<close> is the binade of \<open>x\<close>: \<open>2 ^ expo x \<le> |x| < 2 ^ (expo x + 1)\<close>. Exponent
  overflow and subnormal numbers are not modelled: the values of this library (years,
  seconds of a year, fractions of a year) are far inside the normal range.
\<close>

definition pow2 :: "int \<Rightarrow> rat" where
  "pow2 k = (if 0 \<le> k then 2 ^ nat k else 1 / 2 ^ nat (- k))"

definition expo :: "rat \<Rightarrow> int" where
  "expo x =
     (let (p, q) = quotient_of \<bar>x\<bar>;
          d = bitlen p - bitlen q
      in if pow2 d \<le> \<bar>x\<bar> then d else d - 1)"

definition round_half_even :: "rat \<Rightarrow> int" where
  "round_half_even y =
     (let f = \<lfloor>y\<rfloor>; r = y - of_int f
      in if r < 1 / 2 then f
         else if 1 / 2 < r then f + 1
         else if even f then f else f + 1)"

definition fl :: "rat \<Rightarrow> rat" where
  "fl x =
     (if x = 0 then 0
      else let k = 52 - expo x
           in of_int (round_half_even (x * pow2 k)) * pow2 (- k))"

text \<open>\<open>int(x)\<close> of a float truncates towards zero.\<close>

definition py_int :: "rat \<Rightarrow> int" where
  "py_int x = (if 0 \<le> x then \<lfloor>x\<rfloor> else \<lceil>x\<rceil>)"

subsection \<open>datetime.datetime and datetime.timedelta\<close>

text \<open>
  The calendar arithmetic of the standard library's \<open>datetime\<close> module (proleptic
  Gregorian calendar, years 1 to 9999). \<open>tz\<close> is the UTC offset of an aware instant in
  microseconds, \<open>None\<close> for a naive one. A \<open>timedelta\<close> is its total number of
  microseconds.
\<close>

record datetime =
  dt_year :: int
  dt_month :: int
  dt_day :: int
  dt_hour :: int
  dt_minute :: int
  dt_second :: int
  dt_microsecond :: int
  dt_tz :: "int option"

type_synonym timedelta = int

definition MINYEAR :: int where
  "MINYEAR = 1"

definition MAXYEAR :: int where
  "MAXYEAR = 9999"

definition is_leap :: "int \<Rightarrow> bool" where
  "is_leap y = (y mod 4 = 0 \<and> (if y mod 100 = 0 then y mod 400 = 0 else True))"

definition days_before_year :: "int \<Rightarrow> int" where
  "days_before_year y = (let y1 = y - 1 in y1 * 365 + y1 div 4 - y1 div 100 + y1 div 400)"

definition days_in_month :: "int \<Rightarrow> int \<Rightarrow> int" where
  "days_in_month y m =
     (if m = 2 \<and> is_leap y then 29
      else [31, 28, 31, 30, 31, 30, 31, 31, 30, 31, 30, 31] ! nat (m - 1))"

definition days_before_month :: "int \<Rightarrow> int \<Rightarrow> int" where
  "days_before_month y m =
     [0, 31, 59, 90, 120, 151, 181, 212, 243, 273, 304, 334] ! nat (m - 1)
       + (if 2 < m \<and> is_leap y then 1 else 0)"

definition ymd2ord :: "int \<Rightarrow> int \<Rightarrow> int \<Rightarrow> int" where
  "ymd2ord y m d = days_before_year y + days_before_month y m + d"

definition days_in_year :: "int \<Rightarrow> int" where
  "days_in_year y = (if is_leap y then 366 else 365)"

definition valid_date :: "int \<Rightarrow> int \<Rightarrow> int \<Rightarrow> bool" where
  "valid_date y m d =
     (MINYEAR \<le> y \<and> y \<le> MAXYEAR \<and> 1 \<le> m \<and> m \<le> 12 \<and> 1 \<le> d \<and> d \<le> days_in_month y m)"

definition valid_time :: "int \<Rightarrow> int \<Rightarrow> int \<Rightarrow> int \<Rightarrow> bool" where
  "valid_time h mi s us =
     (0 \<le> h \<and> h \<le> 23 \<and> 0 \<le> mi \<and> mi \<le> 59 \<and> 0 \<le> s \<and> s \<le> 59 \<and> 0 \<le> us \<and> us \<le> 999999)"

definition valid_datetime :: "datetime \<Rightarrow> bool" where
  "valid_datetime t =
     (valid_date (dt_year t) (dt_month t) (dt_day t) \<and>
      valid_time (dt_hour t) (dt_minute t) (dt_second t) (dt_microsecond t))"

text \<open>The constructor \<open>datetime(year, month, day, hour, minute, second, microsecond)\<close>
  raises ValueError on a field out of range.\<close>

definition datetime_new :: "int \<Rightarrow> int \<Rightarrow> int \<Rightarrow> int \<Rightarrow> int \<Rightarrow> int \<Rightarrow> int \<Rightarrow> error + datetime" where
  "datetime_new y m d h mi s us =
     (if valid_date y m d \<and> valid_time h mi s us
      then Inr \<lparr>dt_year = y, dt_month = m, dt_day = d, dt_hour = h, dt_minute = mi,
                dt_second = s, dt_microsecond = us, dt_tz = None\<rparr>
      else Inl (ValueError ''datetime field out of range''))"

definition toordinal :: "datetime \<Rightarrow> int" where
  "toordinal t = ymd2ord (dt_year t) (dt_month t) (dt_day t)"

definition seconds_of_day :: "datetime \<Rightarrow> int" where
  "seconds_of_day t = dt_second t + dt_minute t * 60 + dt_hour t * 3600"

text \<open>\<open>a - b\<close> on two instants: a naive and an aware instant cannot be subtracted.\<close>

definition datetime_sub :: "datetime \<Rightarrow> datetime \<Rightarrow> error + timedelta" where
  "datetime_sub a b =
     (let base = ((toordinal a - toordinal b) * 86400
                    + (seconds_of_day a - seconds_of_day b)) * 1000000
                 + (dt_microsecond a - dt_microsecond b)
      in case (dt_tz a, dt_tz b) of
           (None, None) \<Rightarrow> Inr base
         | (Some oa, Some ob) \<Rightarrow> Inr (base + (ob - oa))
         | _ \<Rightarrow> Inl (TypeError ''cannot subtract offset-naive and offset-aware datetimes''))"

text \<open>\<open>timedelta.total_seconds()\<close>: the microseconds divided by \<open>10 ** 6\<close>, a true
  division of integers, correctly rounded.\<close>

definition total_seconds :: "timedelta \<Rightarrow> rat" where
  "total_seconds d = fl (of_int d / 1000000)"

subsection \<open>datetime.strptime on numeric fields\<close>

text \<open>
  \<open>decimal_date\<close> below takes the parser of the standard library as a parameter, so
  what is proved of it holds for every format. \<open>strptime_numeric\<close> is that parser on the
  formats made of the directives \<open>%Y %m %d %H %M %S %f %%\<close>, white space and literal
  characters, following CPython's \<open>_strptime\<close>: the format becomes a regular expression,
  one group per directive, matched at the start of the data with backtracking and
  ignoring case; the first match must cover the data; the fields found go to the
  \<open>datetime\<close> constructor (year 1900, month 1, day 1, time 0 when absent). Characters
  are ASCII. A directive of the standard library outside this list is answered by
  \<open>Unmodelled\<close>, which is not an exception of Python.
\<close>

datatype fmt_elem = Lit char | Space | Dir char

fun compile_format :: "string \<Rightarrow> error + fmt_elem list" where
  "compile_format [] = Inr []"
| "compile_format [c] =
     (if c = CHR ''%'' then Inl (ValueError ''stray % in format'')
      else Inr [if is_space c then Space else Lit c])"
| "compile_format (c # c' # cs) =
     (if c = CHR ''%'' then
        then_do (compile_format cs)
          (\<lambda>es. Inr ((if c' = CHR ''%'' then Lit c' else Dir c') # es))
      else if is_space c then
        then_do (compile_format (c' # cs))
          (\<lambda>es. Inr (case es of Space # _ \<Rightarrow> es | _ \<Rightarrow> Space # es))
      else then_do (compile_format (c' # cs)) (\<lambda>es. Inr (Lit c # es)))"

definition rng :: "char \<Rightarrow> char \<Rightarrow> char \<Rightarrow> bool" where
  "rng a b c = (ord a \<le> ord c \<and> ord c \<le> ord b)"

definition one :: "char \<Rightarrow> char \<Rightarrow> bool" where
  "one a c = (c = a)"

text \<open>The alternatives of each directive's group, in the order the regular expression
  tries them; an alternative is a sequence of character classes.\<close>

definition dir_alternatives :: "char \<Rightarrow> (char \<Rightarrow> bool) list list" where
  "dir_alternatives c =
     (let d = is_digit in
      if c = CHR ''Y'' then [[d, d, d, d]]
      else if c = CHR ''m'' then
        [[one CHR ''1'', rng CHR ''0'' CHR ''2''], [one CHR ''0'', rng CHR ''1'' CHR ''9''],
         [rng CHR ''1'' CHR ''9'']]
      else if c = CHR ''d'' then
        [[one CHR ''3'', rng CHR ''0'' CHR ''1''], [rng CHR ''1'' CHR ''2'', d],
         [one CHR ''0'', rng CHR ''1'' CHR ''9''], [rng CHR ''1'' CHR ''9''],
         [one CHR '' '', rng CHR ''1'' CHR ''9'']]
      else if c = CHR ''H'' then
        [[one CHR ''2'', rng CHR ''0'' CHR ''3''], [rng CHR ''0'' CHR ''1'', d], [d]]
      else if c = CHR ''M'' then [[rng CHR ''0'' CHR ''5'', d], [d]]
      else if c = CHR ''S'' then
        [[one CHR ''6'', rng CHR ''0'' CHR ''1''], [rng CHR ''0'' CHR ''5'', d], [d]]
      else if c = CHR ''f'' then
        [[d, d, d, d, d, d], [d, d, d, d, d], [d, d, d, d], [d, d, d], [d, d], [d]]
      else [])"

definition modelled_directives :: "char list" where
  "modelled_directives = ''YmdHMSf''"

definition stdlib_directives :: "char list" where
  "stdlib_directives = ''aAbBcdfGHIjmMpSUuVwWxXyYzZ''"

fun match_classes :: "(char \<Rightarrow> bool) list \<Rightarrow> string \<Rightarrow> (string \<times> string) option" where
  "match_classes [] s = Some ([], s)"
| "match_classes (p # ps) [] = None"
| "match_classes (p # ps) (c # cs) =
     (if p c then map_option (\<lambda>(m, r). (c # m, r)) (match_classes ps cs) else None)"

text \<open>What one element of the format can consume at the start of \<open>s\<close>: the text taken
  and the rest, most preferred first (\<open>\s+\<close> is greedy).\<close>

definition alts :: "fmt_elem \<Rightarrow> string \<Rightarrow> (string \<times> string) list" where
  "alts e s =
     (case e of
        Lit c \<Rightarrow>
          (case s of
             [] \<Rightarrow> []
           | x # xs \<Rightarrow> if to_lower x = to_lower c then [([x], xs)] else [])
      | Space \<Rightarrow>
          map (\<lambda>n. (take n s, drop n s)) (rev [1 ..< Suc (length (takeWhile is_space s))])
      | Dir c \<Rightarrow> List.map_filter (\<lambda>alt. match_classes alt s) (dir_alternatives c))"

fun first_some :: "('a \<Rightarrow> 'b option) \<Rightarrow> 'a list \<Rightarrow> 'b option" where
  "first_some f [] = None"
| "first_some f (x # xs) = (case f x of None \<Rightarrow> first_some f xs | Some y \<Rightarrow> Some y)"

definition binding :: "fmt_elem \<Rightarrow> string \<Rightarrow> (char \<times> string) list" where
  "binding e m = (case e of Dir c \<Rightarrow> [(c, m)] | _ \<Rightarrow> [])"

fun match_seq :: "fmt_elem list \<Rightarrow> string \<Rightarrow> ((char \<times> string) list \<times> string) option" where
  "match_seq [] s = Some ([], s)"
| "match_seq (e # es) s =
     first_some
       (\<lambda>(m, r). map_option (\<lambda>(bs, rest). (binding e m @ bs, rest)) (match_seq es r))
       (alts e s)"

definition directives_of :: "fmt_elem list \<Rightarrow> char list" where
  "directives_of es = concat (map (\<lambda>e. case e of Dir c \<Rightarrow> [c] | _ \<Rightarrow> []) es)"

definition field :: "(char \<times> string) list \<Rightarrow> char \<Rightarrow> int \<Rightarrow> int" where
  "field bs c dflt =
     (case map_of bs c of
        None \<Rightarrow> dflt
      | Some s \<Rightarrow> int_of_digits (filter is_digit s))"

definition fraction_field :: "(char \<times> string) list \<Rightarrow> int" where
  "fraction_field bs =
     (case map_of bs CHR ''f'' of
        None \<Rightarrow> 0
      | Some s \<Rightarrow> int_of_digits (s @ replicate (6 - length s) CHR ''0''))"

definition strptime_numeric :: "string \<Rightarrow> string \<Rightarrow> error + datetime" where
  "strptime_numeric data fmt =
     then_do (compile_format fmt) (\<lambda>es.
       let ds = directives_of es in
       if \<exists>c \<in> set ds. c \<notin> set stdlib_directives
         then Inl (ValueError ''bad directive in format'')
       else if \<exists>c \<in> set ds. c \<notin> set modelled_directives
         then Inl (Unmodelled ''directive'')
       else if \<not> distinct ds
         then Inl (ReError ''redefinition of group name'')
       else
         (case match_seq es data of
            None \<Rightarrow> Inl (ValueError ''time data does not match format'')
          | Some (bs, rest) \<Rightarrow>
              if rest \<noteq> [] then Inl (ValueError ''unconverted data remains'')
              else datetime_new (field bs CHR ''Y'' 1900) (field bs CHR ''m'' 1)
                     (field bs CHR ''d'' 1) (field bs CHR ''H'' 0) (field bs CHR ''M'' 0)
                     (field bs CHR ''S'' 0) (fraction_field bs)))"

section \<open>dates.py\<close>

text \<open>The delimiter of a format: the first match of \<open>[^0-9A-Za-z%]\<close>, if any.\<close>

definition find_delimiter :: "string \<Rightarrow> char option" where
  "find_delimiter fmt =
     List.find (\<lambda>c. \<not> (is_digit c \<or> is_upper c \<or> is_lower c \<or> c = CHR ''%'')) fmt"

text \<open>
  The \<open>variable\<close> branch of \<open>decimal_date\<close>, which rewrites \<open>fmt\<close>. With no delimiter
  in the format, \<open>delimit\<close> is \<open>None\<close>, \<open>dateL\<close> is 1 and \<open>delimit.join\<close> raises
  AttributeError.
\<close>

definition reduce_format :: "char option \<Rightarrow> string \<Rightarrow> string \<Rightarrow> error + string" where
  "reduce_format delimit date fmt =
     (let dateL = (case delimit of
                     Some d \<Rightarrow> length (split_on d date)
                   | None \<Rightarrow> 1)
      in if dateL = 2 then
           (case delimit of
              None \<Rightarrow> Inl (AttributeError ''join'')
            | Some d \<Rightarrow> Inr (join [d] (butlast (split_on d fmt))))
         else if dateL = 1 then
           (case delimit of
              None \<Rightarrow> Inl (AttributeError ''join'')
            | Some d \<Rightarrow> Inr (join [d] (butlast (butlast (split_on d fmt)))))
         else Inr fmt)"

text \<open>The last four lines of \<open>decimal_date\<close>: the fractional year of an instant.\<close>

definition fractional_year :: "datetime \<Rightarrow> error + pyval" where
  "fractional_year adatetime =
     (let year = dt_year adatetime in
      then_do (datetime_new year 1 1 0 0 0 0) (\<lambda>boy.
      then_do (datetime_new (year + 1) 1 1 0 0 0 0) (\<lambda>eoy.
      then_do (datetime_sub adatetime boy) (\<lambda>elapsed.
      then_do (datetime_sub eoy boy) (\<lambda>whole.
        if total_seconds whole = 0 then Inl (ZeroDivisionError ''float division by zero'')
        else Inr (PFloat (fl (of_int year
                    + fl (total_seconds elapsed / total_seconds whole)))))))))"

definition decimal_date ::
  "(string \<Rightarrow> string \<Rightarrow> error + datetime) \<Rightarrow> string \<Rightarrow> string \<Rightarrow> bool \<Rightarrow> error + pyval" where
  "decimal_date strptime date fmt variable =
     (if fmt = [] then Inr (PStr date)
      else
        let delimit = find_delimiter fmt in
        then_do (if variable then reduce_format delimit date fmt else Inr fmt) (\<lambda>fmt.
        then_do (strptime date fmt) (\<lambda>adatetime.
          fractional_year adatetime)))"

text \<open>
  \<open>calendar_date\<close>. The module binds the names below at top level; \<open>dt\<close> is not one of
  them and is no builtin, so evaluating \<open>dt.timedelta\<close> raises NameError. What the
  unbound name would construct, the addition of a duration to an instant and
  \<open>strftime\<close> are parameters.
\<close>

definition dates_globals :: "string list" where
  "dates_globals = [''datetime'', ''re'', ''decimal_date'', ''calendar_date'', ''convert_date'']"

definition load_name :: "string list \<Rightarrow> string \<Rightarrow> error + unit" where
  "load_name names n = (if n \<in> set names then Inr () else Inl (NameError n))"

definition datetime_replace_year :: "datetime \<Rightarrow> int \<Rightarrow> error + datetime" where
  "datetime_replace_year t y =
     then_do
       (datetime_new y (dt_month t) (dt_day t) (dt_hour t) (dt_minute t) (dt_second t)
          (dt_microsecond t))
       (\<lambda>t'. Inr (t'\<lparr>dt_tz := dt_tz t\<rparr>))"

definition calendar_date ::
  "(rat \<Rightarrow> error + timedelta) \<Rightarrow> (datetime \<Rightarrow> timedelta \<Rightarrow> error + datetime) \<Rightarrow>
   (datetime \<Rightarrow> string \<Rightarrow> error + string) \<Rightarrow> rat \<Rightarrow> string \<Rightarrow> error + string" where
  "calendar_date timedelta_seconds datetime_add strftime timepoint fmt =
     (let year = py_int timepoint;
          rem = fl (timepoint - of_int year)
      in then_do (datetime_new year 1 1 0 0 0 0) (\<lambda>base.
         then_do (load_name dates_globals ''dt'') (\<lambda>_.
         then_do (datetime_replace_year base (dt_year base + 1)) (\<lambda>nxt.
         then_do (datetime_sub nxt base) (\<lambda>whole.
         then_do (timedelta_seconds (fl (total_seconds whole * rem))) (\<lambda>delta.
         then_do (datetime_add base delta) (\<lambda>result.
           strftime result fmt)))))))"

section \<open>io.py: what the loaders use of the runtime and of the tree engine\<close>

subsection \<open>Truth, membership, subscription and subtraction of Python values\<close>

fun truthy :: "pyval \<Rightarrow> bool" where
  "truthy PNone = False"
| "truthy (PBool b) = b"
| "truthy (PInt i) = (i \<noteq> 0)"
| "truthy (PFloat r) = (r \<noteq> 0)"
| "truthy (PStr s) = (s \<noteq> [])"
| "truthy (PList xs) = (xs \<noteq> [])"
| "truthy (PDict kvs) = (kvs \<noteq> [])"
| "truthy (PSet xs) = (xs \<noteq> [])"
| "truthy (PRef a) = True"

fun starts_with :: "string \<Rightarrow> string \<Rightarrow> bool" where
  "starts_with [] s = True"
| "starts_with (p # ps) [] = False"
| "starts_with (p # ps) (c # cs) = (p = c \<and> starts_with ps cs)"

text \<open>\<open>pat in s\<close> on strings.\<close>

fun contains :: "string \<Rightarrow> string \<Rightarrow> bool" where
  "contains pat [] = (pat = [])"
| "contains pat (c # cs) = (starts_with pat (c # cs) \<or> contains pat cs)"

definition lower :: "string \<Rightarrow> string" where
  "lower s = map to_lower s"

text \<open>\<open>key in container\<close> for a string key.\<close>

fun py_in :: "string \<Rightarrow> pyval \<Rightarrow> error + bool" where
  "py_in k (PDict kvs) = Inr (k \<in> set (map fst kvs))"
| "py_in k (PList xs) = Inr (PStr k \<in> set xs)"
| "py_in k (PSet xs) = Inr (PStr k \<in> set xs)"
| "py_in k (PStr s) = Inr (contains k s)"
| "py_in k v = Inl (TypeError ''argument is not iterable'')"

text \<open>\<open>container[key]\<close> for a string key: only a dictionary can answer.\<close>

fun py_subscript :: "pyval \<Rightarrow> string \<Rightarrow> error + pyval" where
  "py_subscript (PDict kvs) k =
     (case map_of kvs k of
        None \<Rightarrow> Inl (KeyError k)
      | Some v \<Rightarrow> Inr v)"
| "py_subscript v k = Inl (TypeError ''not subscriptable by a string'')"

fun dict_set :: "(string \<times> pyval) list \<Rightarrow> string \<Rightarrow> pyval \<Rightarrow> (string \<times> pyval) list" where
  "dict_set [] k v = [(k, v)]"
| "dict_set ((k', v') # kvs) k v =
     (if k' = k then (k, v) # kvs else (k', v') # dict_set kvs k v)"

text \<open>\<open>container[key] = value\<close>.\<close>

fun py_store :: "pyval \<Rightarrow> string \<Rightarrow> pyval \<Rightarrow> error + pyval" where
  "py_store (PDict kvs) k v = Inr (PDict (dict_set kvs k v))"
| "py_store c k v = Inl (TypeError ''object does not support item assignment'')"

text \<open>The number a value stands for in arithmetic: \<open>Inl\<close> an integer (a bool is one),
  \<open>Inr\<close> a float.\<close>

fun as_number :: "pyval \<Rightarrow> (int + rat) option" where
  "as_number (PBool b) = Some (Inl (if b then 1 else 0))"
| "as_number (PInt i) = Some (Inl i)"
| "as_number (PFloat r) = Some (Inr r)"
| "as_number v = None"

definition to_float :: "int + rat \<Rightarrow> rat" where
  "to_float n = (case n of Inl i \<Rightarrow> fl (of_int i) | Inr r \<Rightarrow> r)"

text \<open>\<open>a - b\<close>: exact on integers, a float subtraction as soon as one side is a float.
  The difference of two sets is outside the model.\<close>

definition py_sub :: "pyval \<Rightarrow> pyval \<Rightarrow> error + pyval" where
  "py_sub a b =
     (case (as_number a, as_number b) of
        (Some (Inl i), Some (Inl j)) \<Rightarrow> Inr (PInt (i - j))
      | (Some x, Some y) \<Rightarrow> Inr (PFloat (fl (to_float x - to_float y)))
      | _ \<Rightarrow>
          (case (a, b) of
             (PSet _, PSet _) \<Rightarrow> Inl (Unmodelled ''set difference'')
           | _ \<Rightarrow> Inl (TypeError ''unsupported operand type(s) for -'')))"

text \<open>\<open>a > b\<close> as \<open>max\<close> uses it: numbers by value, strings by code points.\<close>

fun str_less :: "string \<Rightarrow> string \<Rightarrow> bool" where
  "str_less [] [] = False"
| "str_less [] (c # cs) = True"
| "str_less (c # cs) [] = False"
| "str_less (c # cs) (d # ds) = (ord c < ord d \<or> (ord c = ord d \<and> str_less cs ds))"

definition py_gt :: "pyval \<Rightarrow> pyval \<Rightarrow> error + bool" where
  "py_gt a b =
     (case (as_number a, as_number b) of
        (Some x, Some y) \<Rightarrow>
          Inr (case (x, y) of
                 (Inl i, Inl j) \<Rightarrow> j < i
               | (Inl i, Inr r) \<Rightarrow> r < of_int i
               | (Inr r, Inl j) \<Rightarrow> of_int j < r
               | (Inr r, Inr q) \<Rightarrow> q < r)
      | _ \<Rightarrow>
          (case (a, b) of
             (PStr s, PStr t) \<Rightarrow> Inr (str_less t s)
           | _ \<Rightarrow> Inl (TypeError ''> not supported between these instances'')))"

text \<open>\<open>max(xs)\<close> on a list: the first of the greatest elements; ValueError on \<open>[]\<close>.\<close>

fun max_from :: "pyval \<Rightarrow> pyval list \<Rightarrow> error + pyval" where
  "max_from m [] = Inr m"
| "max_from m (x # xs) =
     then_do (py_gt x m) (\<lambda>g. max_from (if g then x else m) xs)"

definition py_max :: "pyval list \<Rightarrow> error + pyval" where
  "py_max xs =
     (case xs of
        [] \<Rightarrow> Inl (ValueError ''max() arg is an empty sequence'')
      | x # rest \<Rightarrow> max_from x rest)"

subsection \<open>The tree and the tree engine\<close>

text \<open>
  A tree owns a registry \<open>objects\<close> of references, in parse order, into a store \<open>heap\<close>
  of tree objects; the loaders mutate the objects in place, which is an update of the
  store. \<open>tree_attrs\<close> holds what the loaders attach to the tree itself (\<open>tipMap\<close>,
  \<open>cmap\<close>). An instance of \<open>Tree\<close> is taken to be true in a boolean context, as an
  object is unless its class says otherwise.
\<close>

record tree =
  objects :: "nat list"
  heap :: "nat \<rightharpoonup> tree_object"
  tree_attrs :: "string \<rightharpoonup> pyval"

text \<open>A value of the translation mapping of \<open>load_json\<close>: a string, a callable (applied
  to an object, it may read the store), or anything else.\<close>

datatype tvalue =
    TStr string
  | TCallable "(nat \<rightharpoonup> tree_object) \<Rightarrow> tree_object \<Rightarrow> error + pyval"
  | TOther

text \<open>
  The tree engine (\<open>tree.py\<close>: \<open>make_tree\<close>, \<open>make_tree_json\<close> and the methods of
  \<open>Tree\<close>) is not part of the sources at hand. The loaders are modelled over any engine:
  a record of the operations they call, each of which may raise.
\<close>

record engine =
  make_tree :: "string \<Rightarrow> bool \<Rightarrow> error + tree"
  make_tree_json :: "pyval \<Rightarrow> (string \<times> tvalue) list \<Rightarrow> bool \<Rightarrow> error + tree"
  traverse_tree :: "tree \<Rightarrow> bool \<Rightarrow> error + tree"
  sort_branches :: "tree \<Rightarrow> error + tree"
  draw_tree :: "tree \<Rightarrow> error + tree"
  tree_stats :: "tree \<Rightarrow> error + tree"
  get_external :: "tree \<Rightarrow> error + tree_object list"
  set_absolute_time :: "tree \<Rightarrow> pyval \<Rightarrow> error + tree"
  rename_tips :: "tree \<Rightarrow> (string \<times> pyval) list \<Rightarrow> error + tree"

subsection \<open>Sources and the outcome of a load\<close>

text \<open>
  \<open>tree_path\<close> is a path, which the loader opens itself, or a readable object of the
  caller, given here by the lines it yields. \<open>fs\<close> is the file system: the lines of the
  file at a path, \<open>None\<close> when it cannot be opened. A run of a loader ends in a result
  or an exception, and leaves the handle it opened (if it opened one) closed or not;
  \<open>printed\<close> is what a successful run wrote to standard output.
\<close>

datatype source = Path string | Handle "string list"

record 'a run =
  outcome :: "error + 'a"
  opened_by_loader :: bool
  closed_by_loader :: bool

definition is_path :: "source \<Rightarrow> bool" where
  "is_path src = (case src of Path _ \<Rightarrow> True | Handle _ \<Rightarrow> False)"

definition open_source :: "(string \<Rightarrow> string list option) \<Rightarrow> source \<Rightarrow> error + string list" where
  "open_source fs src =
     (case src of
        Handle ls \<Rightarrow> Inr ls
      | Path p \<Rightarrow>
          (case fs p of
             None \<Rightarrow> Inl (OSError p)
           | Some ls \<Rightarrow> Inr ls))"

subsection \<open>The regular expressions of the loaders\<close>

text \<open>
  \<open>re.search\<close> tries a pattern at every position from the left, the end of the string
  included, and returns the first match. Each pattern written in \<open>io.py\<close> is given by
  its matcher at one position; in all of them a repetition is followed by a character
  outside its class, so the greedy match is the only one. The patterns the caller may
  replace (\<open>tip_regex\<close>, \<open>tree_string_regex\<close>) are parameters of the loaders: a function
  from the string searched to group 1 of the match (\<open>None\<close> without a match), and a
  function telling whether there is a match.
\<close>

fun search_with :: "(string \<Rightarrow> 'a option) \<Rightarrow> string \<Rightarrow> 'a option" where
  "search_with m [] = m []"
| "search_with m (c # cs) =
     (case m (c # cs) of
        Some r \<Rightarrow> Some r
      | None \<Rightarrow> search_with m cs)"

text \<open>The default \<open>tip_regex\<close>, \<open>\|([0-9]+\-[0-9]+\-[0-9]+)\<close>.\<close>

definition match_tip_date :: "string \<Rightarrow> string option" where
  "match_tip_date s =
     (case s of
        [] \<Rightarrow> None
      | c # r \<Rightarrow>
          let a = takeWhile is_digit r; r1 = dropWhile is_digit r;
              b = takeWhile is_digit (tl r1); r2 = dropWhile is_digit (tl r1);
              c3 = takeWhile is_digit (tl r2)
          in if c = CHR ''|'' \<and> a \<noteq> [] \<and> starts_with ''-'' r1 \<and> b \<noteq> []
                \<and> starts_with ''-'' r2 \<and> c3 \<noteq> []
             then Some (a @ ''-'' @ b @ ''-'' @ c3)
             else None)"

definition default_tip_search :: "string \<Rightarrow> string option" where
  "default_tip_search n = search_with match_tip_date n"

text \<open>\<open>dimensions ntax=([0-9]+);\<close>\<close>

definition match_ntax :: "string \<Rightarrow> string option" where
  "match_ntax s =
     (let r = drop 16 s; a = takeWhile is_digit r
      in if starts_with ''dimensions ntax='' s \<and> a \<noteq> [] \<and> starts_with '';'' (dropWhile is_digit r)
         then Some a else None)"

text \<open>The default \<open>tree_string_regex\<close>, \<open>tree [A-Za-z\_]+([0-9]+)\<close>.\<close>

definition is_label_char :: "char \<Rightarrow> bool" where
  "is_label_char c = (is_upper c \<or> is_lower c \<or> c = CHR ''_'')"

definition match_tree_line :: "string \<Rightarrow> unit option" where
  "match_tree_line s =
     (let r = drop 5 s; a = takeWhile is_label_char r
      in if starts_with ''tree '' s \<and> a \<noteq> []
            \<and> takeWhile is_digit (dropWhile is_label_char r) \<noteq> []
         then Some () else None)"

definition default_tree_search :: "string \<Rightarrow> bool" where
  "default_tree_search l = (search_with match_tree_line l \<noteq> None)"

text \<open>The pattern of a line of the translate block,
  \<open>([0-9]+) ([A-Za-z\-\_\/\.'0-9 \|?]+)\<close>: groups 1 and 2.\<close>

definition is_name_char :: "char \<Rightarrow> bool" where
  "is_name_char c =
     (is_upper c \<or> is_lower c \<or> is_digit c \<or> c \<in> set [CHR ''-'', CHR ''_'', CHR ''/'', CHR ''.'', CHR 0x27, CHR '' '', CHR ''|'', CHR ''?''])"

definition match_translation :: "string \<Rightarrow> (string \<times> string) option" where
  "match_translation s =
     (let a = takeWhile is_digit s; r = dropWhile is_digit s;
          b = takeWhile is_name_char (tl r)
      in if a \<noteq> [] \<and> starts_with '' '' r \<and> b \<noteq> [] then Some (a, b) else None)"

section \<open>io.py: load_newick and load_nexus\<close>

text \<open>A line without its newlines, whether it holds an opening parenthesis, and the
  tree string \<open>l[l.index("("):]\<close> of a line that does.\<close>

definition strip_newline :: "string \<Rightarrow> string" where
  "strip_newline line = strip_chars (CHR 0x0A) line"

definition has_paren :: "string \<Rightarrow> bool" where
  "has_paren line = (CHR ''('' \<in> set (strip_newline line))"

definition tree_string :: "string \<Rightarrow> string" where
  "tree_string line = dropWhile (\<lambda>c. c \<noteq> CHR ''('') (strip_newline line)"

text \<open>The loop of \<open>load_newick\<close> over the lines of the handle: \<open>ll\<close> and the lines
  printed so far are the state.\<close>

fun newick_scan ::
  "engine \<Rightarrow> bool \<Rightarrow> string list \<Rightarrow> tree option \<times> string list \<Rightarrow> error + (tree option \<times> string list)" where
  "newick_scan eng verbose [] st = Inr st"
| "newick_scan eng verbose (line # rest) (ll, out) =
     (if has_paren line then
        then_do (make_tree eng (tree_string line) verbose) (\<lambda>t.
          newick_scan eng verbose rest
            (Some t, if verbose then out @ [''Identified tree string''] else out))
      else newick_scan eng verbose rest (ll, out))"

text \<open>
  The calibration block, the same in \<open>load_newick\<close> and \<open>load_nexus\<close>. The first loop
  collects \<open>tip_dates\<close> and \<open>tip_names\<close>; \<open>re.search\<close> raises TypeError on a name that is
  not a string. The message of the assertion reads \<open>tip_names[0]\<close>, which raises
  IndexError when the tree has no external object at all.
\<close>

fun collect_tip_dates ::
  "(string \<Rightarrow> string \<Rightarrow> error + datetime) \<Rightarrow> (string \<Rightarrow> string option) \<Rightarrow> string \<Rightarrow> bool \<Rightarrow>
   tree_object list \<Rightarrow> pyval list \<times> pyval list \<Rightarrow> error + (pyval list \<times> pyval list)" where
  "collect_tip_dates strptime tip_search date_fmt variable_date [] acc = Inr acc"
| "collect_tip_dates strptime tip_search date_fmt variable_date (k # ks) (tip_dates, tip_names) =
     then_do (py_getattr k ''name'') (\<lambda>n.
       case n of
         PStr s \<Rightarrow>
           (case tip_search s of
              None \<Rightarrow>
                collect_tip_dates strptime tip_search date_fmt variable_date ks
                  (tip_dates, tip_names @ [n])
            | Some g \<Rightarrow>
                then_do (decimal_date strptime g date_fmt variable_date) (\<lambda>d.
                  collect_tip_dates strptime tip_search date_fmt variable_date ks
                    (tip_dates @ [d], tip_names @ [n])))
       | _ \<Rightarrow> Inl (TypeError ''expected string or bytes-like object''))"

text \<open>The text of a name that is a string, and group 1 of the pattern in every
  external name it matches, in order.\<close>

definition name_text :: "tree_object \<Rightarrow> string" where
  "name_text k = (case py_getattr k ''name'' of Inr (PStr s) \<Rightarrow> s | _ \<Rightarrow> [])"

definition matched_dates :: "(string \<Rightarrow> string option) \<Rightarrow> tree_object list \<Rightarrow> string list" where
  "matched_dates tip_search ks = List.map_filter (\<lambda>k. tip_search (name_text k)) ks"

definition no_tip_dates :: string where
  "no_tip_dates = ''Regular expression failed to find tip dates in tip names''"

definition no_tree_string :: string where
  "no_tree_string = ''Regular expression failed to find tree string''"

definition calibrate ::
  "engine \<Rightarrow> (string \<Rightarrow> string \<Rightarrow> error + datetime) \<Rightarrow> (string \<Rightarrow> string option) \<Rightarrow> string \<Rightarrow> bool \<Rightarrow>
   tree \<Rightarrow> error + tree" where
  "calibrate eng strptime tip_search date_fmt variable_date ll =
     then_do (get_external eng ll) (\<lambda>ks.
     then_do (collect_tip_dates strptime tip_search date_fmt variable_date ks ([], []))
       (\<lambda>(tip_dates, tip_names).
          if tip_dates = [] then
            (if tip_names = [] then Inl (IndexError ''list index out of range'')
             else Inl (AssertionError no_tip_dates))
          else
            then_do (py_max tip_dates) (\<lambda>highest_tip.
              set_absolute_time eng ll highest_tip)))"

text \<open>\<open>load_newick\<close> between opening the handle and closing it.\<close>

definition newick_body ::
  "engine \<Rightarrow> (string \<Rightarrow> string \<Rightarrow> error + datetime) \<Rightarrow> string list \<Rightarrow> (string \<Rightarrow> string option) \<Rightarrow>
   string \<Rightarrow> bool \<Rightarrow> bool \<Rightarrow> bool \<Rightarrow> bool \<Rightarrow> error + (tree \<times> string list)" where
  "newick_body eng strptime lines tip_search date_fmt variable_date absolute_time verbose
     do_sort =
     then_do (newick_scan eng verbose lines (None, [])) (\<lambda>(found, out).
       case found of
         None \<Rightarrow> Inl (AssertionError no_tree_string)
       | Some ll \<Rightarrow>
           then_do (traverse_tree eng ll verbose) (\<lambda>ll.
           then_do (if do_sort then sort_branches eng ll else Inr ll) (\<lambda>ll.
           then_do (if absolute_time
                    then calibrate eng strptime tip_search date_fmt variable_date ll
                    else Inr ll) (\<lambda>ll.
             Inr (ll, out)))))"

text \<open>
  A loader opens the handle when it is given a path, runs its body, and closes the
  handle, if it opened it, in its last statement before \<open>return\<close>: an exception of the
  body leaves the function before that statement.
\<close>

definition with_source ::
  "(string \<Rightarrow> string list option) \<Rightarrow> source \<Rightarrow> (string list \<Rightarrow> error + 'a) \<Rightarrow> 'a run" where
  "with_source fs tree_path body =
     (case open_source fs tree_path of
        Inl e \<Rightarrow> \<lparr>outcome = Inl e, opened_by_loader = False, closed_by_loader = False\<rparr>
      | Inr lines \<Rightarrow>
          (case body lines of
             Inl e \<Rightarrow>
               \<lparr>outcome = Inl e, opened_by_loader = is_path tree_path,
                closed_by_loader = False\<rparr>
           | Inr r \<Rightarrow>
               \<lparr>outcome = Inr r, opened_by_loader = is_path tree_path,
                closed_by_loader = (if is_path tree_path then True else False)\<rparr>))"

definition load_newick ::
  "engine \<Rightarrow> (string \<Rightarrow> string \<Rightarrow> error + datetime) \<Rightarrow> (string \<Rightarrow> string list option) \<Rightarrow>
   source \<Rightarrow> (string \<Rightarrow> string option) \<Rightarrow> string \<Rightarrow> bool \<Rightarrow> bool \<Rightarrow> bool \<Rightarrow> bool \<Rightarrow>
   (tree \<times> string list) run" where
  "load_newick eng strptime fs tree_path tip_search date_fmt variable_date absolute_time
     verbose do_sort =
     with_source fs tree_path (\<lambda>lines.
       newick_body eng strptime lines tip_search date_fmt variable_date absolute_time
         verbose do_sort)"

text \<open>The state of the loop of \<open>load_nexus\<close>.\<close>

record nexus_state =
  st_tip_flag :: bool
  st_tips :: "(string \<times> pyval) list"
  st_tip_num :: int
  st_ll :: "tree option"
  st_out :: "string list"

definition say :: "bool \<Rightarrow> string \<Rightarrow> nexus_state \<Rightarrow> nexus_state" where
  "say verbose msg st = (if verbose then st\<lparr>st_out := st_out st @ [msg]\<rparr> else st)"

text \<open>One line of the loop of \<open>load_nexus\<close>; \<open>l.index("(")\<close> raises ValueError on a
  line that matches the tree pattern and holds no parenthesis.\<close>

definition nexus_step ::
  "engine \<Rightarrow> (string \<Rightarrow> bool) \<Rightarrow> bool \<Rightarrow> nexus_state \<Rightarrow> string \<Rightarrow> error + nexus_state" where
  "nexus_step eng tree_search verbose st line =
     (let l = strip_newline line;
          st1 = (case search_with match_ntax (lower l) of
                   None \<Rightarrow> st
                 | Some g \<Rightarrow>
                     say verbose
                       (''File should contain '' @ show_nat (nat (int_of_digits g)) @ '' taxa'')
                       (st\<lparr>st_tip_num := int_of_digits g\<rparr>))
      in then_do
           (if tree_search (lower l) then
              (if has_paren line then
                 then_do (make_tree eng (tree_string line) False) (\<lambda>t.
                   Inr (say verbose ''Identified tree string'' (st1\<lparr>st_ll := Some t\<rparr>)))
               else Inl (ValueError ''substring not found''))
            else Inr st1)
           (\<lambda>st2.
              let st3 =
                    (if st_tip_flag st2 then
                       (case search_with match_translation l of
                          Some (g1, g2) \<Rightarrow>
                            (let nm = strip_chars (CHR 0x27) (strip_chars (CHR 0x22) g2)
                             in say verbose (''Identified tip translation '' @ g1 @ '': '' @ nm)
                                  (st2\<lparr>st_tips := dict_set (st_tips st2) g1 (PStr nm)\<rparr>))
                        | None \<Rightarrow>
                            if CHR '';'' \<notin> set l
                            then st2\<lparr>st_out := st_out st2 @
                                   [''tip not captured by regex: '' @ filter (\<lambda>c. c \<noteq> CHR 0x09) l]\<rparr>
                            else st2)
                     else st2);
                  st4 = (if contains ''translate'' (lower l) then st3\<lparr>st_tip_flag := True\<rparr> else st3);
                  st5 = (if CHR '';'' \<in> set l then st4\<lparr>st_tip_flag := False\<rparr> else st4)
              in Inr st5))"

fun nexus_scan ::
  "engine \<Rightarrow> (string \<Rightarrow> bool) \<Rightarrow> bool \<Rightarrow> string list \<Rightarrow> nexus_state \<Rightarrow> error + nexus_state" where
  "nexus_scan eng tree_search verbose [] st = Inr st"
| "nexus_scan eng tree_search verbose (line # rest) st =
     then_do (nexus_step eng tree_search verbose st line)
       (\<lambda>st'. nexus_scan eng tree_search verbose rest st')"

definition nexus_init :: nexus_state where
  "nexus_init = \<lparr>st_tip_flag = False, st_tips = [], st_tip_num = 0, st_ll = None, st_out = []\<rparr>"

definition nexus_body ::
  "engine \<Rightarrow> (string \<Rightarrow> string \<Rightarrow> error + datetime) \<Rightarrow> string list \<Rightarrow> (string \<Rightarrow> string option) \<Rightarrow>
   string \<Rightarrow> (string \<Rightarrow> bool) \<Rightarrow> bool \<Rightarrow> bool \<Rightarrow> bool \<Rightarrow> bool \<Rightarrow> error + (tree \<times> string list)" where
  "nexus_body eng strptime lines tip_search date_fmt tree_search variable_date absolute_time
     verbose do_sort =
     then_do (nexus_scan eng tree_search verbose lines nexus_init) (\<lambda>st.
       case st_ll st of
         None \<Rightarrow> Inl (AssertionError no_tree_string)
       | Some ll \<Rightarrow>
           then_do (traverse_tree eng ll False) (\<lambda>ll.
           then_do (if do_sort then sort_branches eng ll else Inr ll) (\<lambda>ll.
           then_do (if st_tips st \<noteq> []
                    then then_do (rename_tips eng ll (st_tips st)) (\<lambda>ll.
                           Inr (ll\<lparr>tree_attrs := (tree_attrs ll)(''tipMap'' \<mapsto> PDict (st_tips st))\<rparr>))
                    else Inr ll) (\<lambda>ll.
           then_do (if absolute_time
                    then calibrate eng strptime tip_search date_fmt variable_date ll
                    else Inr ll) (\<lambda>ll.
             Inr (ll, st_out st))))))"

definition load_nexus ::
  "engine \<Rightarrow> (string \<Rightarrow> string \<Rightarrow> error + datetime) \<Rightarrow> (string \<Rightarrow> string list option) \<Rightarrow>
   source \<Rightarrow> (string \<Rightarrow> string option) \<Rightarrow> string \<Rightarrow> (string \<Rightarrow> bool) \<Rightarrow> bool \<Rightarrow> bool \<Rightarrow> bool \<Rightarrow>
   bool \<Rightarrow> (tree \<times> string list) run" where
  "load_nexus eng strptime fs tree_path tip_search date_fmt tree_search variable_date
     absolute_time verbose do_sort =
     with_source fs tree_path (\<lambda>lines.
       nexus_body eng strptime lines tip_search date_fmt tree_search variable_date
         absolute_time verbose do_sort)"

section \<open>io.py: load_json\<close>

text \<open>\<open>json_translation\<close> is a dictionary: its keys in insertion order, each once.\<close>

definition has_key :: "(string \<times> 'v) list \<Rightarrow> string \<Rightarrow> bool" where
  "has_key d k = (k \<in> set (map fst d))"

text \<open>The first assertion of \<open>load_json\<close> and its message.\<close>

definition first_check :: "(string \<times> tvalue) list \<Rightarrow> bool" where
  "first_check json_translation =
     (has_key json_translation ''name'' \<and>
      (has_key json_translation ''absolute_time''
       \<or> has_key json_translation ''length''
       \<or> has_key json_translation ''height''))"

definition missing_entries :: "(string \<times> tvalue) list \<Rightarrow> string" where
  "missing_entries json_translation =
     ''JSON translation dictionary missing entries: '' @
     join '', '' (filter (\<lambda>entry. \<not> has_key json_translation entry)
                   [''name'', ''height'', ''absolute_time'', ''length''])"

text \<open>The second assertion, after the tree has been built.\<close>

definition second_check :: "(string \<times> tvalue) list \<Rightarrow> bool" where
  "second_check json_translation =
     ((has_key json_translation ''absolute_time''
       \<and> (\<not> has_key json_translation ''length'' \<or> \<not> has_key json_translation ''height''))
      \<or> (\<not> has_key json_translation ''absolute_time''
          \<and> (has_key json_translation ''length'' \<or> has_key json_translation ''height'')))"

definition both_units :: string where
  "both_units = ''Cannot use both absolute time and branch length, include only one in json_translation dictionary.''"

text \<open>
  The JSON document: a string (a URL holding \<open>nextstrain.org\<close>, fetched, or else a local
  path, read) or the parsed object itself. Fetching and reading are the environment's.
\<close>

datatype json_source = JsonStr string | JsonObject pyval

definition acquire ::
  "(string \<Rightarrow> error + pyval) \<Rightarrow> (string \<Rightarrow> error + pyval) \<Rightarrow> json_source \<Rightarrow> error + pyval" where
  "acquire http_get read_json json_object =
     (case json_object of
        JsonStr s \<Rightarrow> if contains ''nextstrain.org'' s then http_get s else read_json s
      | JsonObject v \<Rightarrow> Inr v)"

definition read_object :: "(nat \<rightharpoonup> tree_object) \<Rightarrow> nat \<Rightarrow> error + tree_object" where
  "read_object h a =
     (case h a of
        None \<Rightarrow> Inl (Unmodelled ''dangling reference'')
      | Some k \<Rightarrow> Inr k)"

text \<open>A loop \<open>for k in ll.objects: body(k)\<close> whose body mutates \<open>k\<close>.\<close>

fun for_objects ::
  "((nat \<rightharpoonup> tree_object) \<Rightarrow> tree_object \<Rightarrow> error + tree_object) \<Rightarrow> nat list \<Rightarrow>
   (nat \<rightharpoonup> tree_object) \<Rightarrow> error + (nat \<rightharpoonup> tree_object)" where
  "for_objects body [] h = Inr h"
| "for_objects body (a # as) h =
     then_do (read_object h a) (\<lambda>k.
     then_do (body h k) (\<lambda>k'.
       for_objects body as (h(a \<mapsto> k'))))"

subsection \<open>Making node attributes easier to access\<close>

definition node_attr :: "tree_object \<Rightarrow> string \<Rightarrow> error + pyval" where
  "node_attr k key =
     then_do (py_getattr k ''traits'') (\<lambda>t.
     then_do (py_subscript t ''node_attrs'') (\<lambda>na.
       py_subscript na key))"

definition set_trait :: "tree_object \<Rightarrow> string \<Rightarrow> pyval \<Rightarrow> error + tree_object" where
  "set_trait k key v =
     then_do (py_getattr k ''traits'') (\<lambda>t.
     then_do (py_store t key v) (\<lambda>t'.
       Inr (py_setattr k ''traits'' t')))"

definition is_dict :: "pyval \<Rightarrow> bool" where
  "is_dict v = (case v of PDict _ \<Rightarrow> True | _ \<Rightarrow> False)"

text \<open>The body of the inner loop; every \<open>k.traits["node_attrs"][key]\<close> of the source is
  read again where it stands.\<close>

definition flatten_key :: "tree_object \<Rightarrow> string \<Rightarrow> error + tree_object" where
  "flatten_key k key =
     then_do (node_attr k key) (\<lambda>v.
       if is_dict v then
         then_do (py_in ''value'' v) (\<lambda>has_value.
         then_do (if has_value
                  then then_do (py_subscript v ''value'') (\<lambda>x. set_trait k key x)
                  else Inr k) (\<lambda>k1.
         then_do (node_attr k1 key) (\<lambda>v1.
         then_do (py_in ''confidence'' v1) (\<lambda>has_confidence.
           if has_confidence
           then then_do (py_subscript v1 ''confidence'') (\<lambda>x.
                  set_trait k1 (key @ ''_confidence'') x)
           else Inr k1))))
       else if key = ''div'' then set_trait k ''divergence'' v
       else Inr k)"

fun flatten_keys :: "tree_object \<Rightarrow> string list \<Rightarrow> error + tree_object" where
  "flatten_keys k [] = Inr k"
| "flatten_keys k (key # keys) = then_do (flatten_key k key) (\<lambda>k'. flatten_keys k' keys)"

text \<open>What \<open>for key in v\<close> runs over; a non-empty list, string or set is outside the
  model.\<close>

definition iter_keys :: "pyval \<Rightarrow> error + string list" where
  "iter_keys v =
     (case v of
        PDict kvs \<Rightarrow> Inr (map fst kvs)
      | PList xs \<Rightarrow> if xs = [] then Inr [] else Inl (Unmodelled ''iteration over a list'')
      | PStr s \<Rightarrow> if s = [] then Inr [] else Inl (Unmodelled ''iteration over a string'')
      | PSet xs \<Rightarrow> if xs = [] then Inr [] else Inl (Unmodelled ''iteration over a set'')
      | _ \<Rightarrow> Inl (TypeError ''object is not iterable''))"

definition flatten_object :: "(nat \<rightharpoonup> tree_object) \<Rightarrow> tree_object \<Rightarrow> error + tree_object" where
  "flatten_object h k =
     then_do (py_getattr k ''traits'') (\<lambda>t.
     then_do (py_subscript t ''node_attrs'') (\<lambda>na.
     then_do (iter_keys na) (\<lambda>keys.
       flatten_keys k keys)))"

subsection \<open>Resolving the translation mapping\<close>

text \<open>\<open>scope in k.traits and key in k.traits[scope]\<close>, and then the value found.\<close>

definition find_in_scope :: "pyval \<Rightarrow> string \<Rightarrow> string \<Rightarrow> error + pyval option" where
  "find_in_scope t scope key =
     then_do (py_in scope t) (\<lambda>has_scope.
       if has_scope then
         then_do (py_subscript t scope) (\<lambda>sc.
         then_do (py_in key sc) (\<lambda>has.
           if has then then_do (py_subscript sc key) (\<lambda>v. Inr (Some v)) else Inr None))
       else Inr None)"

definition translate_object ::
  "string \<Rightarrow> tvalue \<Rightarrow> (nat \<rightharpoonup> tree_object) \<Rightarrow> tree_object \<Rightarrow> error + tree_object" where
  "translate_object attr tv h k =
     (case tv of
        TStr key \<Rightarrow>
          then_do (py_getattr k ''traits'') (\<lambda>t.
          then_do (py_in key t) (\<lambda>direct.
            if direct then then_do (py_subscript t key) (\<lambda>v. Inr (py_setattr k attr v))
            else
              then_do (find_in_scope t ''node_attrs'' key) (\<lambda>r1.
                case r1 of
                  Some v \<Rightarrow> Inr (py_setattr k attr v)
                | None \<Rightarrow>
                    then_do (find_in_scope t ''branch_attrs'' key) (\<lambda>r2.
                      case r2 of
                        Some v \<Rightarrow> Inr (py_setattr k attr v)
                      | None \<Rightarrow> Inl (KeyError key)))))
      | TCallable f \<Rightarrow> then_do (f h k) (\<lambda>v. Inr (py_setattr k attr v))
      | TOther \<Rightarrow> Inl (AttributeError ''neither string nor callable''))"

fun translate_all ::
  "(string \<times> tvalue) list \<Rightarrow> nat list \<Rightarrow> (nat \<rightharpoonup> tree_object) \<Rightarrow> error + (nat \<rightharpoonup> tree_object)" where
  "translate_all [] objs h = Inr h"
| "translate_all ((attr, tv) # rest) objs h =
     then_do (for_objects (translate_object attr tv) objs h) (\<lambda>h'.
       translate_all rest objs h')"

subsection \<open>Branch lengths from heights or absolute times\<close>

text \<open>\<open>getattr(k.parent, branch_unit)\<close>: only a tree object has the attribute; \<open>None\<close>,
  the parent of an object that has none, raises AttributeError.\<close>

definition parent_attr :: "(nat \<rightharpoonup> tree_object) \<Rightarrow> tree_object \<Rightarrow> string \<Rightarrow> error + pyval" where
  "parent_attr h k branch_unit =
     then_do (py_getattr k ''parent'') (\<lambda>p.
       case p of
         PRef b \<Rightarrow> then_do (read_object h b) (\<lambda>po. py_getattr po branch_unit)
       | _ \<Rightarrow> Inl (AttributeError branch_unit))"

definition derive_length ::
  "string \<Rightarrow> (nat \<rightharpoonup> tree_object) \<Rightarrow> tree_object \<Rightarrow> error + tree_object" where
  "derive_length branch_unit h k =
     then_do (py_getattr k branch_unit) (\<lambda>cur_branch.
     then_do (parent_attr h k branch_unit) (\<lambda>par_branch.
     then_do (if truthy cur_branch \<and> truthy par_branch
              then py_sub cur_branch par_branch
              else Inr (PFloat 0)) (\<lambda>len.
       Inr (py_setattr k ''length'' len))))"

fun derive_lengths ::
  "string list \<Rightarrow> (string \<times> tvalue) list \<Rightarrow> nat list \<Rightarrow> (nat \<rightharpoonup> tree_object) \<Rightarrow>
   error + (nat \<rightharpoonup> tree_object)" where
  "derive_lengths [] json_translation objs h = Inr h"
| "derive_lengths (branch_unit # units) json_translation objs h =
     then_do (if has_key json_translation branch_unit
              then for_objects (derive_length branch_unit) objs h
              else Inr h) (\<lambda>h'.
       derive_lengths units json_translation objs h')"

subsection \<open>The colour map\<close>

text \<open>\<open>key, value = entry\<close> on an entry of a scale, and \<open>cmap[colouring["key"]][key] = value\<close>;
  keys that are not strings are outside the model.\<close>

fun scale_entries :: "pyval list \<Rightarrow> (string \<times> pyval) list \<Rightarrow> error + (string \<times> pyval) list" where
  "scale_entries [] acc = Inr acc"
| "scale_entries (entry # entries) acc =
     (case entry of
        PList [PStr key, v] \<Rightarrow> scale_entries entries (dict_set acc key v)
      | PList [_, _] \<Rightarrow> Inl (Unmodelled ''category that is not a string'')
      | PList _ \<Rightarrow> Inl (ValueError ''wrong number of values to unpack'')
      | _ \<Rightarrow> Inl (Unmodelled ''entry that is not a list''))"

definition add_colouring :: "(string \<times> pyval) list \<Rightarrow> pyval \<Rightarrow> error + (string \<times> pyval) list" where
  "add_colouring cmap colouring =
     then_do (py_subscript colouring ''type'') (\<lambda>ty.
       if ty \<noteq> PStr ''categorical'' then Inr cmap
       else
         then_do (py_in ''scale'' colouring) (\<lambda>has_scale.
           if \<not> has_scale then Inr cmap
           else
             then_do (py_subscript colouring ''key'') (\<lambda>ckey.
             then_do (py_subscript colouring ''scale'') (\<lambda>scale.
               case (ckey, scale) of
                 (PStr ck, PList entries) \<Rightarrow>
                   then_do (scale_entries entries []) (\<lambda>m. Inr (dict_set cmap ck (PDict m)))
               | _ \<Rightarrow> Inl (Unmodelled ''colouring key or scale'')))))"

fun add_colourings :: "(string \<times> pyval) list \<Rightarrow> pyval list \<Rightarrow> error + (string \<times> pyval) list" where
  "add_colourings cmap [] = Inr cmap"
| "add_colourings cmap (c # cs) = then_do (add_colouring cmap c) (\<lambda>cmap'. add_colourings cmap' cs)"

definition build_cmap :: "pyval \<Rightarrow> error + pyval" where
  "build_cmap json_meta =
     then_do (py_subscript json_meta ''colorings'') (\<lambda>cols.
       case cols of
         PList cs \<Rightarrow> then_do (add_colourings [] cs) (\<lambda>m. Inr (PDict m))
       | _ \<Rightarrow> Inl (Unmodelled ''colorings that is not a list''))"

subsection \<open>The loader\<close>

text \<open>\<open>load_json\<close> from the second assertion on: the passes over the tree that was
  built.\<close>

definition enrich ::
  "engine \<Rightarrow> (string \<times> tvalue) list \<Rightarrow> pyval \<Rightarrow> tree \<Rightarrow> bool \<Rightarrow> bool \<Rightarrow> bool \<Rightarrow> error + (tree \<times> pyval)" where
  "enrich eng json_translation json_meta ll verbose do_sort stats =
     then_do (for_objects flatten_object (objects ll) (heap ll)) (\<lambda>h1.
     then_do (translate_all json_translation (objects ll) h1) (\<lambda>h2.
     then_do (derive_lengths [''height'', ''absolute_time''] json_translation
                (objects ll) h2) (\<lambda>h3.
     then_do (traverse_tree eng (ll\<lparr>heap := h3\<rparr>) verbose) (\<lambda>ll.
     then_do (draw_tree eng ll) (\<lambda>ll.
     then_do (if stats then tree_stats eng ll else Inr ll) (\<lambda>ll.
     then_do (if do_sort then sort_branches eng ll else Inr ll) (\<lambda>ll.
     then_do (build_cmap json_meta) (\<lambda>cmap.
       Inr (ll\<lparr>tree_attrs := (tree_attrs ll)(''cmap'' \<mapsto> cmap)\<rparr>, json_meta)))))))))"

definition load_json ::
  "engine \<Rightarrow> (string \<Rightarrow> error + pyval) \<Rightarrow> (string \<Rightarrow> error + pyval) \<Rightarrow> json_source \<Rightarrow>
   (string \<times> tvalue) list \<Rightarrow> bool \<Rightarrow> bool \<Rightarrow> bool \<Rightarrow> error + (tree \<times> pyval)" where
  "load_json eng http_get read_json json_object json_translation verbose do_sort stats =
     (if \<not> first_check json_translation
      then Inl (AssertionError (missing_entries json_translation))
      else
        then_do (acquire http_get read_json json_object) (\<lambda>auspice_json.
        then_do (py_subscript auspice_json ''meta'') (\<lambda>json_meta.
        then_do (py_subscript auspice_json ''tree'') (\<lambda>json_tree.
        then_do (make_tree_json eng json_tree json_translation verbose) (\<lambda>ll.
          if \<not> second_check json_translation then Inl (AssertionError both_units)
          else enrich eng json_translation json_meta ll verbose do_sort stats)))))"

section \<open>A stand-in engine\<close>

text \<open>
  An instance of the engine, for running the loaders on concrete inputs: a tree string
  becomes a tree of one leaf, named by the string; every pass returns the tree as it is;
  \<open>set_absolute_time\<close> records the time it is given on the tree.
\<close>

definition leaf_tree :: "string \<Rightarrow> tree" where
  "leaf_tree s =
     \<lparr>objects = [0],
      heap = [0 \<mapsto> py_setattr (Leaf_init (new_object Leaf)) ''name'' (PStr s)],
      tree_attrs = Map.empty\<rparr>"

definition one_leaf_engine :: engine where
  "one_leaf_engine =
     \<lparr>make_tree = (\<lambda>s verbose. Inr (leaf_tree s)),
      make_tree_json = (\<lambda>json_tree json_translation verbose. Inr (leaf_tree [])),
      traverse_tree = (\<lambda>ll verbose. Inr ll),
      sort_branches = Inr,
      draw_tree = Inr,
      tree_stats = Inr,
      get_external = (\<lambda>ll. Inr (List.map_filter (heap ll) (objects ll))),
      set_absolute_time = (\<lambda>ll t. Inr (ll\<lparr>tree_attrs := (tree_attrs ll)(''calibrated_to'' \<mapsto> t)\<rparr>)),
      rename_tips = (\<lambda>ll tips. Inr ll)\<rparr>"

definition no_files :: "string \<Rightarrow> string list option" where
  "no_files p = None"

definition single_file :: "string \<Rightarrow> string list \<Rightarrow> string \<Rightarrow> string list option" where
  "single_file path lines p = (if p = path then Some lines else None)"

text \<open>A tree of two tips whose names end in a date, as the default pattern expects.\<close>

definition two_tips :: tree where
  "two_tips =
     \<lparr>objects = [0, 1],
      heap = [0 \<mapsto> py_setattr (Leaf_init (new_object Leaf)) ''name'' (PStr ''A|2019-03-01''),
              1 \<mapsto> py_setattr (Leaf_init (new_object Leaf)) ''name'' (PStr ''B|2020-01-15'')],
      tree_attrs = Map.empty\<rparr>"

text \<open>The same two tips with dates written without leading zeros.\<close>

definition short_dates :: tree where
  "short_dates =
     \<lparr>objects = [0, 1],
      heap = [0 \<mapsto> py_setattr (Leaf_init (new_object Leaf)) ''name'' (PStr ''A|2020-9-1''),
              1 \<mapsto> py_setattr (Leaf_init (new_object Leaf)) ''name'' (PStr ''B|2020-10-1'')],
      tree_attrs = Map.empty\<rparr>"

text \<open>The stand-in engine with a parser that answers every tree string with the tree
  \<open>t\<close>: for running a loader on the tree string of \<open>t\<close>.\<close>

definition fixed_engine :: "tree \<Rightarrow> engine" where
  "fixed_engine t = one_leaf_engine\<lparr>make_tree := (\<lambda>s verbose. Inr t)\<rparr>"

section \<open>Properties of the tree object classes\<close>

text \<open>
  C4. The claim is that the length read through the common accessor is 0.0 right after
  construction for every variant. Node, Clade and Reticulation assign 0.0 in their
  constructors; Leaf does not, so a fresh Leaf still holds the \<open>None\<close> that the base
  constructor stored.
\<close>

theorem fresh_length_by_variant:
  "py_getattr (Node_init (new_object Node)) ''length'' = Inr (PFloat 0) \<and>
   py_getattr (Clade_init (new_object Clade) nm) ''length'' = Inr (PFloat 0) \<and>
   py_getattr (Reticulation_init (new_object Reticulation) nm) ''length'' = Inr (PFloat 0) \<and>
   py_getattr (Leaf_init (new_object Leaf)) ''length'' = Inr PNone \<and>
   py_getattr (Leaf_init (new_object Leaf)) ''length'' \<noteq> Inr (PFloat 0)"
  by (simp add: py_getattr_def py_setattr_def slot_def properties_def new_object_def
      BaseTreeObject_init_def Node_init_def Leaf_init_def Clade_init_def
      Reticulation_init_def Let_def)

section \<open>Properties of calendar_date\<close>

lemma then_do_Inr [simp]: "then_do (Inr v) f = f v"
  by (simp add: then_do_def)

lemma then_do_Inl [simp]: "then_do (Inl e) f = Inl e"
  by (simp add: then_do_def)

text \<open>
  C3. The claim is that \<open>calendar_date(t, F)\<close> returns the formatted instant. No call
  returns: when the year is one a \<open>datetime\<close> can hold, the name \<open>dt\<close> is looked up and
  is not bound, which raises NameError; otherwise the constructor of the start-of-year
  instant has already raised ValueError.
\<close>

theorem calendar_date_never_returns:
  "calendar_date timedelta_seconds datetime_add strftime timepoint fmt =
     Inl (if MINYEAR \<le> py_int timepoint \<and> py_int timepoint \<le> MAXYEAR
          then NameError ''dt'' else ValueError ''datetime field out of range'')"
  by (simp add: calendar_date_def datetime_new_def valid_date_def valid_time_def
      days_in_month_def load_name_def dates_globals_def Let_def)

section \<open>Properties of load_json\<close>

text \<open>
  C1. The claim is that a translation mapping defining both an absolute-time source and
  a length or height source fails with a configuration error. With \<open>name\<close>,
  \<open>absolute_time\<close> and \<open>length\<close> defined (and \<open>height\<close> not), both assertions hold: the
  second one accepts \<open>absolute_time\<close> as soon as one of \<open>length\<close>, \<open>height\<close> is missing.
  The call then runs on into the passes over the tree, whatever the engine and the
  document.
\<close>

theorem translation_with_both_sources_passes_validation:
  "first_check [(''name'', TStr ''name''), (''absolute_time'', TStr ''num_date''),
                (''length'', TStr ''div'')] \<and>
   second_check [(''name'', TStr ''name''), (''absolute_time'', TStr ''num_date''),
                 (''length'', TStr ''div'')] \<and>
   load_json eng http_get read_json json_object
       [(''name'', TStr ''name''), (''absolute_time'', TStr ''num_date''),
        (''length'', TStr ''div'')] verbose do_sort stats =
     then_do (acquire http_get read_json json_object) (\<lambda>auspice_json.
     then_do (py_subscript auspice_json ''meta'') (\<lambda>json_meta.
     then_do (py_subscript auspice_json ''tree'') (\<lambda>json_tree.
     then_do (make_tree_json eng json_tree
                [(''name'', TStr ''name''), (''absolute_time'', TStr ''num_date''),
                 (''length'', TStr ''div'')] verbose) (\<lambda>ll.
       enrich eng [(''name'', TStr ''name''), (''absolute_time'', TStr ''num_date''),
                   (''length'', TStr ''div'')] json_meta ll verbose do_sort stats))))"
  by (simp add: first_check_def second_check_def has_key_def load_json_def)

lemma invalid_translation_fails:
  assumes "\<not> has_key json_translation ''name''
           \<or> (\<not> has_key json_translation ''absolute_time''
               \<and> \<not> has_key json_translation ''length''
               \<and> \<not> has_key json_translation ''height'')"
  shows "load_json eng http_get read_json json_object json_translation verbose do_sort stats
           = Inl (AssertionError (missing_entries json_translation))"
  using assms by (auto simp add: load_json_def first_check_def)

theorem translation_with_both_sources_passes_validation_witness:
  "first_check [(''name'', TStr ''name''), (''absolute_time'', TStr ''num_date''),
                (''length'', TStr ''div'')] \<and>
   second_check [(''name'', TStr ''name''), (''absolute_time'', TStr ''num_date''),
                 (''length'', TStr ''div'')]"
  using translation_with_both_sources_passes_validation[where eng = one_leaf_engine
      and json_object = "JsonObject PNone" and verbose = False and do_sort = False
      and stats = False]
  by blast

text \<open>
  C5. The claim is that the length derived from heights or absolute times is the
  object's value minus its parent's, and 0.0 when either side is unavailable, the root
  included, so that the derivation never fails at the root. An object whose parent is
  \<open>None\<close> makes \<open>getattr(k.parent, branch_unit)\<close> raise AttributeError, whatever its own
  value: the loop fails on a tree whose root has no parent. And a parent whose value is
  0 counts as unavailable: its child gets length 0.0, not its own value minus 0.
\<close>

theorem root_length_derivation_fails:
  "derive_length ''height'' h (py_setattr (py_setattr k ''height'' v) ''parent'' PNone)
     = Inl (AttributeError ''height'') \<and>
   derive_length ''absolute_time'' h
       (py_setattr (py_setattr k ''absolute_time'' v) ''parent'' PNone)
     = Inl (AttributeError ''absolute_time'') \<and>
   derive_lengths [''height'', ''absolute_time'']
       [(''name'', TStr ''name''), (''height'', TStr ''div'')] [0]
       [0 \<mapsto> py_setattr (Node_init (new_object Node)) ''height'' (PFloat 0)]
     = Inl (AttributeError ''height'') \<and>
   derive_length ''height'' [1 \<mapsto> py_setattr p ''height'' (PFloat 0)]
       (py_setattr (py_setattr c ''height'' (PFloat (1 / 2))) ''parent'' (PRef 1))
     = Inr (py_setattr (py_setattr (py_setattr c ''height'' (PFloat (1 / 2))) ''parent'' (PRef 1))
              ''length'' (PFloat 0))"
  by (simp add: derive_length_def parent_attr_def py_getattr_def py_setattr_def slot_def
      properties_def read_object_def has_key_def Node_init_def BaseTreeObject_init_def
      new_object_def Let_def)

section \<open>Properties of load_newick\<close>








section \<open>Properties of the calibration block\<close>

lemma Inl_by_case: "(case x of Inl e \<Rightarrow> e = e0 | Inr v \<Rightarrow> False) \<Longrightarrow> x = Inl e0"
  by (cases x) auto

lemma max_from_floats:
  "max_from (PFloat m) (map PFloat ds) = Inr (PFloat (fold max ds m))"
proof (induction ds arbitrary: m)
  case Nil
  then show ?case by simp
next
  case (Cons d ds)
  show ?case
    using Cons.IH[of d] Cons.IH[of m]
    by (auto simp add: py_gt_def max_def)
qed

lemma py_max_floats:
  assumes "ds \<noteq> []"
  shows "py_max (map PFloat ds) = Inr (PFloat (Max (set ds)))"
proof (cases ds)
  case Nil
  with assms show ?thesis by simp
next
  case (Cons d ds')
  have "Max (set (d # ds')) = fold max ds' d"
    by (rule Max.set_eq_fold)
  then show ?thesis
    using Cons by (simp add: py_max_def max_from_floats)
qed

lemma collect_tip_dates_result:
  assumes "\<forall>k \<in> set ks. py_getattr k ''name'' = Inr (PStr (nm k))"
    and "\<forall>g \<in> set (List.map_filter (\<lambda>k. tip_search (nm k)) ks).
           decimal_date strptime g date_fmt variable_date = Inr (val g)"
  shows "collect_tip_dates strptime tip_search date_fmt variable_date ks (ds0, ns0) =
           Inr (ds0 @ map val (List.map_filter (\<lambda>k. tip_search (nm k)) ks),
                ns0 @ map (\<lambda>k. PStr (nm k)) ks)"
  using assms
proof (induction ks arbitrary: ds0 ns0)
  case Nil
  then show ?case by (simp add: map_filter_simps)
next
  case (Cons k ks)
  have nm: "py_getattr k ''name'' = Inr (PStr (nm k))" using Cons.prems(1) by simp
  have names: "\<forall>k \<in> set ks. py_getattr k ''name'' = Inr (PStr (nm k))" using Cons.prems(1) by simp
  show ?case
  proof (cases "tip_search (nm k)")
    case None
    then have conv: "\<forall>g \<in> set (List.map_filter (\<lambda>k. tip_search (nm k)) ks).
           decimal_date strptime g date_fmt variable_date = Inr (val g)"
      using Cons.prems(2) by (simp add: map_filter_simps)
    show ?thesis
      using None nm Cons.IH[OF names conv] by (simp add: map_filter_simps)
  next
    case (Some g)
    then have conv: "\<forall>g \<in> set (List.map_filter (\<lambda>k. tip_search (nm k)) ks).
           decimal_date strptime g date_fmt variable_date = Inr (val g)"
      and here: "decimal_date strptime g date_fmt variable_date = Inr (val g)"
      using Cons.prems(2) by (simp_all add: map_filter_simps)
    show ?thesis
      using Some nm here Cons.IH[OF names conv] by (simp add: map_filter_simps)
  qed
qed

lemma calibrate_pointwise:
  assumes "get_external eng ll = Inr ks"
    and "\<forall>k \<in> set ks. py_getattr k ''name'' = Inr (PStr (nm k))"
    and "\<forall>g \<in> set (List.map_filter (\<lambda>k. tip_search (nm k)) ks).
           decimal_date strptime g date_fmt variable_date = Inr (val g)"
  shows "calibrate eng strptime tip_search date_fmt variable_date ll =
           (if List.map_filter (\<lambda>k. tip_search (nm k)) ks = []
            then Inl (if ks = [] then IndexError ''list index out of range''
                      else AssertionError no_tip_dates)
            else then_do (py_max (map val (List.map_filter (\<lambda>k. tip_search (nm k)) ks)))
                   (set_absolute_time eng ll))
         \<and> (\<forall>ds. ds \<noteq> [] \<and> map val (List.map_filter (\<lambda>k. tip_search (nm k)) ks) = map PFloat ds \<longrightarrow>
               py_max (map val (List.map_filter (\<lambda>k. tip_search (nm k)) ks)) = Inr (PFloat (Max (set ds))))"
proof -
  have "calibrate eng strptime tip_search date_fmt variable_date ll =
           (if List.map_filter (\<lambda>k. tip_search (nm k)) ks = []
            then Inl (if ks = [] then IndexError ''list index out of range''
                      else AssertionError no_tip_dates)
            else then_do (py_max (map val (List.map_filter (\<lambda>k. tip_search (nm k)) ks)))
                   (set_absolute_time eng ll))"
    using assms(1) collect_tip_dates_result[OF assms(2,3), of "[]" "[]"]
    by (simp add: calibrate_def)
  moreover have "\<forall>ds. ds \<noteq> [] \<and> map val (List.map_filter (\<lambda>k. tip_search (nm k)) ks) = map PFloat ds \<longrightarrow>
               py_max (map val (List.map_filter (\<lambda>k. tip_search (nm k)) ks)) = Inr (PFloat (Max (set ds)))"
    by (simp add: py_max_floats)
  ultimately show ?thesis by blast
qed

lemma calibrate_result:
  assumes ext: "get_external eng ll = Inr ks"
    and names: "\<forall>k \<in> set ks. py_getattr k ''name'' = Inr (PStr (name_text k))"
    and conv: "map (\<lambda>g. decimal_date strptime g date_fmt variable_date) (matched_dates tip_search ks)
             = map Inr tip_dates"
  shows "calibrate eng strptime tip_search date_fmt variable_date ll =
           (if matched_dates tip_search ks = []
            then Inl (if ks = [] then IndexError ''list index out of range''
                      else AssertionError no_tip_dates)
            else then_do (py_max tip_dates) (set_absolute_time eng ll))"
proof -
  define val where "val g = projr (decimal_date strptime g date_fmt variable_date)" for g
  have len: "length tip_dates = length (matched_dates tip_search ks)"
    using conv by (metis length_map)
  have pointwise: "decimal_date strptime (matched_dates tip_search ks ! i) date_fmt variable_date
        = Inr (tip_dates ! i)" if "i < length tip_dates" for i
    using conv that len by (metis nth_map)
  have all: "\<forall>g \<in> set (List.map_filter (\<lambda>k. tip_search (name_text k)) ks).
           decimal_date strptime g date_fmt variable_date = Inr (val g)"
  proof
    fix g assume "g \<in> set (List.map_filter (\<lambda>k. tip_search (name_text k)) ks)"
    then obtain i where "i < length (matched_dates tip_search ks)" "matched_dates tip_search ks ! i = g"
      by (auto simp: matched_dates_def in_set_conv_nth)
    with pointwise[of i] len show "decimal_date strptime g date_fmt variable_date = Inr (val g)"
      by (simp add: val_def)
  qed
  have vs: "map val (matched_dates tip_search ks) = tip_dates"
  proof (rule nth_equalityI)
    show "length (map val (matched_dates tip_search ks)) = length tip_dates" using len by simp
  next
    fix i assume "i < length (map val (matched_dates tip_search ks))"
    then have i: "i < length tip_dates" using len by simp
    then show "map val (matched_dates tip_search ks) ! i = tip_dates ! i"
      using pointwise[OF i] len by (simp add: val_def)
  qed
  have empty: "tip_dates = [] \<longleftrightarrow> matched_dates tip_search ks = []"
    using len by auto
  from calibrate_pointwise[OF ext names all] vs empty show ?thesis
    by (simp add: matched_dates_def)
qed

lemma outcome_with_source:
  assumes "open_source fs tree_path = Inr lines"
  shows "outcome (with_source fs tree_path body) = body lines"
  using assms by (simp add: with_source_def split: sum.splits)

lemma fractional_year_float:
  assumes "fractional_year t = Inr r"
  shows "\<exists>x. r = PFloat x"
  using assms
  by (auto simp add: fractional_year_def Let_def then_do_def split: sum.splits if_splits)

lemma decimal_date_float:
  assumes "fmt \<noteq> []" and "decimal_date strptime date fmt variable = Inr r"
  shows "\<exists>x. r = PFloat x"
  using assms fractional_year_float
  by (auto simp add: decimal_date_def Let_def then_do_def split: sum.splits if_splits)

lemma fixed_engine_passes:
  "make_tree (fixed_engine t) s v = Inr t"
  "traverse_tree (fixed_engine t) ll v = Inr ll"
  "sort_branches (fixed_engine t) ll = Inr ll"
  "get_external (fixed_engine t) ll = Inr (List.map_filter (heap ll) (objects ll))"
  "set_absolute_time (fixed_engine t) ll d
     = Inr (ll\<lparr>tree_attrs := (tree_attrs ll)(''calibrated_to'' \<mapsto> d)\<rparr>)"
  by (simp_all add: fixed_engine_def one_leaf_engine_def)

lemma two_tips_external:
  "get_external (fixed_engine t) two_tips =
     Inr [py_setattr (Leaf_init (new_object Leaf)) ''name'' (PStr ''A|2019-03-01''),
          py_setattr (Leaf_init (new_object Leaf)) ''name'' (PStr ''B|2020-01-15'')]"
  by (simp add: fixed_engine_passes two_tips_def map_filter_simps)

lemma short_dates_external:
  "get_external (fixed_engine t) short_dates =
     Inr [py_setattr (Leaf_init (new_object Leaf)) ''name'' (PStr ''A|2020-9-1''),
          py_setattr (Leaf_init (new_object Leaf)) ''name'' (PStr ''B|2020-10-1'')]"
  by (simp add: fixed_engine_passes short_dates_def map_filter_simps)

lemma named_leaf: "py_getattr (py_setattr (Leaf_init (new_object Leaf)) ''name'' (PStr s)) ''name'' = Inr (PStr s)"
  "name_text (py_setattr (Leaf_init (new_object Leaf)) ''name'' (PStr s)) = s"
  by (simp_all add: name_text_def py_getattr_def py_setattr_def)

lemma tip_search_examples:
  "default_tip_search ''A|2019-03-01'' = Some ''2019-03-01''"
  "default_tip_search ''B|2020-01-15'' = Some ''2020-01-15''"
  "default_tip_search ''A|2020-9-1'' = Some ''2020-9-1''"
  "default_tip_search ''B|2020-10-1'' = Some ''2020-10-1''"
  by code_simp+

lemma decimal_date_examples:
  "decimal_date strptime_numeric ''2019-03-01'' ''%Y-%m-%d'' True
     = Inr (PFloat (4440183411513125 / 2199023255552))"
  "decimal_date strptime_numeric ''2020-01-15'' ''%Y-%m-%d'' True
     = Inr (PFloat (4442111091858695 / 2199023255552))"
  "decimal_date strptime_numeric ''2020-9-1'' ''%Y-%m-%d'' True
     = Inr (PFloat (8886985983437483 / 4398046511104))"
  "decimal_date strptime_numeric ''2020-10-1'' ''%Y-%m-%d'' True
     = Inr (PFloat (8887346479053147 / 4398046511104))"
  by code_simp+

lemma tree_line_examples:
  "has_paren ''tree TREE1 = (A|2019-03-01,B|2020-01-15);''"
  "strip_newline ''tree TREE1 = (A|2019-03-01,B|2020-01-15);''
     = ''tree TREE1 = (A|2019-03-01,B|2020-01-15);''"
  "default_tree_search (lower ''tree TREE1 = (A|2019-03-01,B|2020-01-15);'')"
  "search_with match_ntax (lower ''tree TREE1 = (A|2019-03-01,B|2020-01-15);'') = None"
  "\<not> contains ''translate'' (lower ''tree TREE1 = (A|2019-03-01,B|2020-01-15);'')"
  "has_paren ''(A|2020-9-1,B|2020-10-1);''"
  by code_simp+

lemma string_max_example:
  "py_max [PStr ''2020-9-1'', PStr ''2020-10-1''] = Inr (PStr ''2020-9-1'')"
  by code_simp

text \<open>
  C6. The claim is that, in every load with calibration requested, the time passed to
  the tree is the most recent of the decimal dates found. With an empty \<open>date_fmt\<close>,
  \<open>decimal_date\<close> returns the matched text as it is, and \<open>max\<close> compares the texts by
  code points: of the tips \<open>A|2020-9-1\<close> and \<open>B|2020-10-1\<close> the time passed to
  \<open>set_absolute_time\<close> is the string \<open>2020-9-1\<close>, which is no decimal date and not
  the more recent of the two days.
\<close>

theorem calibration_with_empty_format_counterexample:
  "outcome (load_newick (fixed_engine short_dates) strptime_numeric no_files
      (Handle [''(A|2020-9-1,B|2020-10-1);'']) default_tip_search [] True True False True)
    = Inr (short_dates\<lparr>tree_attrs := [''calibrated_to'' \<mapsto> PStr ''2020-9-1'']\<rparr>, [])
   \<and> decimal_date strptime_numeric ''2020-9-1'' ''%Y-%m-%d'' True
       = Inr (PFloat (8886985983437483 / 4398046511104))
   \<and> decimal_date strptime_numeric ''2020-10-1'' ''%Y-%m-%d'' True
       = Inr (PFloat (8887346479053147 / 4398046511104))
   \<and> (8886985983437483 / 4398046511104 :: rat) < 8887346479053147 / 4398046511104"
proof -
  let ?ks = "[py_setattr (Leaf_init (new_object Leaf)) ''name'' (PStr ''A|2020-9-1''),
          py_setattr (Leaf_init (new_object Leaf)) ''name'' (PStr ''B|2020-10-1'')]"
  have names: "\<forall>k \<in> set ?ks. py_getattr k ''name'' = Inr (PStr (name_text k))"
    by (simp add: named_leaf)
  have m: "matched_dates default_tip_search ?ks = [''2020-9-1'', ''2020-10-1'']"
    by (simp add: matched_dates_def map_filter_simps named_leaf tip_search_examples)
  have conv: "map (\<lambda>g. decimal_date strptime_numeric g [] True) (matched_dates default_tip_search ?ks)
     = map Inr [PStr ''2020-9-1'', PStr ''2020-10-1'']"
    by (simp add: m decimal_date_def)
  have cal: "calibrate (fixed_engine short_dates) strptime_numeric default_tip_search [] True short_dates
      = Inr (short_dates\<lparr>tree_attrs := [''calibrated_to'' \<mapsto> PStr ''2020-9-1'']\<rparr>)"
    using calibrate_result[where eng = "fixed_engine short_dates" and ll = short_dates
        and strptime = strptime_numeric and tip_search = default_tip_search
        and date_fmt = "[]" and variable_date = True,
        OF short_dates_external names conv]
    by (simp add: m string_max_example fixed_engine_passes short_dates_def)
  have "outcome (load_newick (fixed_engine short_dates) strptime_numeric no_files
      (Handle [''(A|2020-9-1,B|2020-10-1);'']) default_tip_search [] True True False True)
    = Inr (short_dates\<lparr>tree_attrs := [''calibrated_to'' \<mapsto> PStr ''2020-9-1'']\<rparr>, [])"
    by (simp add: load_newick_def with_source_def open_source_def newick_body_def
        tree_line_examples fixed_engine_passes cal is_path_def)
  then show ?thesis
    by (simp add: decimal_date_examples)
qed

text \<open>
  C6, amended. In a load of either kind with calibration requested, once the lines are
  scanned and the tree \<open>ll\<close> is traversed, sorted and (in a Nexus load) renamed, the
  pattern is searched in the name of every external object of \<open>ll\<close>, in registry order,
  and group 1 of every match goes through \<open>decimal_date\<close> with the format and the
  \<open>variable_date\<close> flag of the call. When no name matched, the load fails: with the
  AssertionError of the source, or, on a tree with no external object at all, with the
  IndexError that building the message of that assertion raises. Otherwise, when every
  conversion returns, the load returns what \<open>set_absolute_time\<close> makes of \<open>ll\<close> and
  \<open>max\<close> of the converted values. Under a format that is not empty these values are
  floats and \<open>max\<close> is the greatest of them; under an empty format they are the matched
  texts themselves.
\<close>

theorem calibrated_load_passes_max_of_tip_dates:
  assumes src: "open_source fs tree_path = Inr lines"
    and ext: "get_external eng ll = Inr ks"
    and names: "\<forall>k \<in> set ks. py_getattr k ''name'' = Inr (PStr (name_text k))"
    and conv: "map (\<lambda>g. decimal_date strptime g date_fmt variable_date) (matched_dates tip_search ks)
             = map Inr tip_dates"
  shows "(newick_scan eng verbose lines (None, []) = Inr (Some found, out)
            \<and> traverse_tree eng found verbose = Inr walked
            \<and> (if do_sort then sort_branches eng walked else Inr walked) = Inr ll
          \<longrightarrow> outcome (load_newick eng strptime fs tree_path tip_search date_fmt variable_date
                          True verbose do_sort)
               = (if matched_dates tip_search ks = []
                  then Inl (if ks = [] then IndexError ''list index out of range''
                            else AssertionError no_tip_dates)
                  else then_do (py_max tip_dates) (\<lambda>highest_tip.
                       then_do (set_absolute_time eng ll highest_tip) (\<lambda>ll'. Inr (ll', out)))))
       \<and> (nexus_scan eng tree_search verbose lines nexus_init = Inr st
            \<and> st_ll st = Some nfound
            \<and> traverse_tree eng nfound False = Inr nwalked
            \<and> (if do_sort then sort_branches eng nwalked else Inr nwalked) = Inr nsorted
            \<and> (if st_tips st \<noteq> []
                then then_do (rename_tips eng nsorted (st_tips st)) (\<lambda>r.
                       Inr (r\<lparr>tree_attrs := (tree_attrs r)(''tipMap'' \<mapsto> PDict (st_tips st))\<rparr>))
                else Inr nsorted) = Inr ll
          \<longrightarrow> outcome (load_nexus eng strptime fs tree_path tip_search date_fmt tree_search
                          variable_date True verbose do_sort)
               = (if matched_dates tip_search ks = []
                  then Inl (if ks = [] then IndexError ''list index out of range''
                            else AssertionError no_tip_dates)
                  else then_do (py_max tip_dates) (\<lambda>highest_tip.
                       then_do (set_absolute_time eng ll highest_tip) (\<lambda>ll'. Inr (ll', st_out st)))))
       \<and> (date_fmt \<noteq> [] \<longrightarrow>
            (\<exists>ds. tip_dates = map PFloat ds
                  \<and> (ds \<noteq> [] \<longrightarrow> py_max tip_dates = Inr (PFloat (Max (set ds))))))
       \<and> (date_fmt = [] \<longrightarrow> tip_dates = map PStr (matched_dates tip_search ks))"
proof -
  have cal: "calibrate eng strptime tip_search date_fmt variable_date ll =
           (if matched_dates tip_search ks = []
            then Inl (if ks = [] then IndexError ''list index out of range''
                      else AssertionError no_tip_dates)
            else then_do (py_max tip_dates) (set_absolute_time eng ll))"
    by (rule calibrate_result[OF ext names conv])
  have nw: "newick_scan eng verbose lines (None, []) = Inr (Some found, out)
            \<and> traverse_tree eng found verbose = Inr walked
            \<and> (if do_sort then sort_branches eng walked else Inr walked) = Inr ll
          \<longrightarrow> outcome (load_newick eng strptime fs tree_path tip_search date_fmt variable_date
                          True verbose do_sort)
               = (if matched_dates tip_search ks = []
                  then Inl (if ks = [] then IndexError ''list index out of range''
                            else AssertionError no_tip_dates)
                  else then_do (py_max tip_dates) (\<lambda>highest_tip.
                       then_do (set_absolute_time eng ll highest_tip) (\<lambda>ll'. Inr (ll', out))))"
    using cal
    by (auto simp add: load_newick_def outcome_with_source[OF src] newick_body_def then_do_def
        split: sum.splits)
  have nx: "nexus_scan eng tree_search verbose lines nexus_init = Inr st
            \<and> st_ll st = Some nfound
            \<and> traverse_tree eng nfound False = Inr nwalked
            \<and> (if do_sort then sort_branches eng nwalked else Inr nwalked) = Inr nsorted
            \<and> (if st_tips st \<noteq> []
                then then_do (rename_tips eng nsorted (st_tips st)) (\<lambda>r.
                       Inr (r\<lparr>tree_attrs := (tree_attrs r)(''tipMap'' \<mapsto> PDict (st_tips st))\<rparr>))
                else Inr nsorted) = Inr ll
          \<longrightarrow> outcome (load_nexus eng strptime fs tree_path tip_search date_fmt tree_search
                          variable_date True verbose do_sort)
               = (if matched_dates tip_search ks = []
                  then Inl (if ks = [] then IndexError ''list index out of range''
                            else AssertionError no_tip_dates)
                  else then_do (py_max tip_dates) (\<lambda>highest_tip.
                       then_do (set_absolute_time eng ll highest_tip) (\<lambda>ll'. Inr (ll', st_out st))))"
  proof (intro impI, elim conjE)
    assume a: "nexus_scan eng tree_search verbose lines nexus_init = Inr st"
      "st_ll st = Some nfound" "traverse_tree eng nfound False = Inr nwalked"
      "(if do_sort then sort_branches eng nwalked else Inr nwalked) = Inr nsorted"
      "(if st_tips st \<noteq> []
                then then_do (rename_tips eng nsorted (st_tips st)) (\<lambda>r.
                       Inr (r\<lparr>tree_attrs := (tree_attrs r)(''tipMap'' \<mapsto> PDict (st_tips st))\<rparr>))
                else Inr nsorted) = Inr ll"
    have "nexus_body eng strptime lines tip_search date_fmt tree_search variable_date True verbose do_sort
       = then_do (calibrate eng strptime tip_search date_fmt variable_date ll) (\<lambda>ll'. Inr (ll', st_out st))"
      using a by (simp add: nexus_body_def)
    then show "outcome (load_nexus eng strptime fs tree_path tip_search date_fmt tree_search
                          variable_date True verbose do_sort)
               = (if matched_dates tip_search ks = []
                  then Inl (if ks = [] then IndexError ''list index out of range''
                            else AssertionError no_tip_dates)
                  else then_do (py_max tip_dates) (\<lambda>highest_tip.
                       then_do (set_absolute_time eng ll highest_tip) (\<lambda>ll'. Inr (ll', st_out st))))"
      using cal
      by (auto simp add: load_nexus_def outcome_with_source[OF src] then_do_def split: sum.splits)
  qed
  have fl: "date_fmt \<noteq> [] \<longrightarrow>
            (\<exists>ds. tip_dates = map PFloat ds
                  \<and> (ds \<noteq> [] \<longrightarrow> py_max tip_dates = Inr (PFloat (Max (set ds)))))"
  proof
    assume ne: "date_fmt \<noteq> []"
    define un where "un v = (case v of PFloat x \<Rightarrow> x | _ \<Rightarrow> 0)" for v
    have len: "length tip_dates = length (matched_dates tip_search ks)"
      using conv by (metis length_map)
    have "PFloat (un v) = v" if "v \<in> set tip_dates" for v
    proof -
      from that obtain i where i: "i < length tip_dates" "tip_dates ! i = v"
        by (auto simp: in_set_conv_nth)
      have "decimal_date strptime (matched_dates tip_search ks ! i) date_fmt variable_date = Inr v"
        using conv i len by (metis nth_map)
      from decimal_date_float[OF ne this] show ?thesis by (auto simp: un_def)
    qed
    then have "map (\<lambda>v. PFloat (un v)) tip_dates = tip_dates"
      by (intro map_idI)
    then have eq: "tip_dates = map PFloat (map un tip_dates)" by (simp add: comp_def)
    have "map un tip_dates \<noteq> [] \<longrightarrow> py_max tip_dates = Inr (PFloat (Max (set (map un tip_dates))))"
      using py_max_floats[of "map un tip_dates"] eq by auto
    with eq show "\<exists>ds. tip_dates = map PFloat ds
                  \<and> (ds \<noteq> [] \<longrightarrow> py_max tip_dates = Inr (PFloat (Max (set ds))))"
      by blast
  qed
  have tx: "date_fmt = [] \<longrightarrow> tip_dates = map PStr (matched_dates tip_search ks)"
  proof
    assume "date_fmt = []"
    then have "map Inr (map PStr (matched_dates tip_search ks)) = (map Inr tip_dates :: (error + pyval) list)"
      using conv by (simp add: decimal_date_def comp_def)
    then show "tip_dates = map PStr (matched_dates tip_search ks)"
      by (metis inj_Inr inj_map_eq_map)
  qed
  from nw nx fl tx show ?thesis by blast
qed

theorem calibrated_load_passes_max_of_tip_dates_witness:
  "open_source no_files (Handle [''tree TREE1 = (A|2019-03-01,B|2020-01-15);''])
     = Inr [''tree TREE1 = (A|2019-03-01,B|2020-01-15);'']
   \<and> get_external (fixed_engine two_tips) two_tips =
       Inr [py_setattr (Leaf_init (new_object Leaf)) ''name'' (PStr ''A|2019-03-01''),
            py_setattr (Leaf_init (new_object Leaf)) ''name'' (PStr ''B|2020-01-15'')]
   \<and> matched_dates default_tip_search
        [py_setattr (Leaf_init (new_object Leaf)) ''name'' (PStr ''A|2019-03-01''),
         py_setattr (Leaf_init (new_object Leaf)) ''name'' (PStr ''B|2020-01-15'')]
       = [''2019-03-01'', ''2020-01-15'']
   \<and> newick_scan (fixed_engine two_tips) False
        [''tree TREE1 = (A|2019-03-01,B|2020-01-15);''] (None, []) = Inr (Some two_tips, [])
   \<and> nexus_scan (fixed_engine two_tips) default_tree_search False
        [''tree TREE1 = (A|2019-03-01,B|2020-01-15);''] nexus_init
       = Inr (nexus_init\<lparr>st_ll := Some two_tips\<rparr>)
   \<and> outcome (load_newick (fixed_engine two_tips) strptime_numeric no_files
        (Handle [''tree TREE1 = (A|2019-03-01,B|2020-01-15);''])
        default_tip_search ''%Y-%m-%d'' True True False True)
       = Inr (two_tips\<lparr>tree_attrs := [''calibrated_to'' \<mapsto> PFloat (4442111091858695 / 2199023255552)]\<rparr>, [])
   \<and> outcome (load_nexus (fixed_engine two_tips) strptime_numeric no_files
        (Handle [''tree TREE1 = (A|2019-03-01,B|2020-01-15);''])
        default_tip_search ''%Y-%m-%d'' default_tree_search True True False True)
       = Inr (two_tips\<lparr>tree_attrs := [''calibrated_to'' \<mapsto> PFloat (4442111091858695 / 2199023255552)]\<rparr>, [])"
proof -
  let ?L = "''tree TREE1 = (A|2019-03-01,B|2020-01-15);''"
  let ?ks = "[py_setattr (Leaf_init (new_object Leaf)) ''name'' (PStr ''A|2019-03-01''),
          py_setattr (Leaf_init (new_object Leaf)) ''name'' (PStr ''B|2020-01-15'')]"
  let ?ds = "[PFloat (4440183411513125 / 2199023255552), PFloat (4442111091858695 / 2199023255552)]"
  have src: "open_source no_files (Handle [?L]) = Inr [?L]"
    by (simp add: open_source_def)
  have ext: "get_external (fixed_engine two_tips) two_tips = Inr ?ks"
    by (rule two_tips_external)
  have names: "\<forall>k \<in> set ?ks. py_getattr k ''name'' = Inr (PStr (name_text k))"
    by (simp add: named_leaf)
  have m: "matched_dates default_tip_search ?ks = [''2019-03-01'', ''2020-01-15'']"
    by (simp add: matched_dates_def map_filter_simps named_leaf tip_search_examples)
  have conv: "map (\<lambda>g. decimal_date strptime_numeric g ''%Y-%m-%d'' True) (matched_dates default_tip_search ?ks)
     = map Inr ?ds"
    by (simp add: m decimal_date_examples)
  have mx: "py_max ?ds = Inr (PFloat (4442111091858695 / 2199023255552))"
    by (simp add: py_max_def py_gt_def)
  have nw: "newick_scan (fixed_engine two_tips) False [?L] (None, []) = Inr (Some two_tips, [])"
    by (simp add: tree_line_examples fixed_engine_passes)
  have nx: "nexus_scan (fixed_engine two_tips) default_tree_search False [?L] nexus_init
       = Inr (nexus_init\<lparr>st_ll := Some two_tips\<rparr>)"
    by (simp add: nexus_step_def Let_def say_def tree_line_examples fixed_engine_passes nexus_init_def)
  have "outcome (load_newick (fixed_engine two_tips) strptime_numeric no_files (Handle [?L])
        default_tip_search ''%Y-%m-%d'' True True False True)
       = Inr (two_tips\<lparr>tree_attrs := [''calibrated_to'' \<mapsto> PFloat (4442111091858695 / 2199023255552)]\<rparr>, [])
     \<and> outcome (load_nexus (fixed_engine two_tips) strptime_numeric no_files (Handle [?L])
        default_tip_search ''%Y-%m-%d'' default_tree_search True True False True)
       = Inr (two_tips\<lparr>tree_attrs := [''calibrated_to'' \<mapsto> PFloat (4442111091858695 / 2199023255552)]\<rparr>, [])"
    using calibrated_load_passes_max_of_tip_dates[where fs = no_files and tree_path = "Handle [?L]"
        and lines = "[?L]" and eng = "fixed_engine two_tips" and ll = two_tips and ks = ?ks
        and strptime = strptime_numeric and date_fmt = "''%Y-%m-%d''" and variable_date = True
        and tip_search = default_tip_search and tip_dates = ?ds and verbose = False
        and found = two_tips and out = "[]" and walked = two_tips and do_sort = True
        and tree_search = default_tree_search and st = "nexus_init\<lparr>st_ll := Some two_tips\<rparr>"
        and nfound = two_tips and nwalked = two_tips and nsorted = two_tips,
        OF src ext names conv]
      nw nx m mx
    by (simp add: fixed_engine_passes nexus_init_def two_tips_def)
  with src ext m nw nx show ?thesis by blast
qed

section \<open>Properties of load_nexus\<close>

lemma to_lower_semicolon: "to_lower c = CHR '';'' \<longleftrightarrow> c = CHR '';''"
proof (cases "is_upper c")
  case True
  then have "of_char (to_lower c) = (ord c + 32) mod 256"
    by (simp add: to_lower_def)
  moreover have "65 \<le> ord c \<and> ord c \<le> 90" using True by (simp add: is_upper_def)
  ultimately have "(of_char (to_lower c) :: nat) \<noteq> 59" by auto
  then have "to_lower c \<noteq> CHR '';''" by auto
  moreover have "c \<noteq> CHR '';''" using True by (auto simp: is_upper_def ord_def)
  ultimately show ?thesis by simp
next
  case False
  then show ?thesis by (simp add: to_lower_def)
qed

lemma semicolon_to_lower: "CHR '';'' = to_lower c \<longleftrightarrow> c = CHR '';''"
  using to_lower_semicolon[of c] by auto

lemma semicolon_lower: "CHR '';'' \<in> set (lower l) \<longleftrightarrow> CHR '';'' \<in> set l"
  by (auto simp: lower_def image_iff semicolon_to_lower)

lemma starts_with_single: "starts_with [c] s \<Longrightarrow> c \<in> set s"
  by (cases s) auto

lemma match_ntax_semicolon: "match_ntax s = Some a \<Longrightarrow> CHR '';'' \<in> set s"
proof -
  assume "match_ntax s = Some a"
  then have "starts_with '';'' (dropWhile is_digit (drop 16 s))"
    by (simp add: match_ntax_def Let_def split: if_splits)
  then have "CHR '';'' \<in> set (dropWhile is_digit (drop 16 s))"
    by (rule starts_with_single)
  then show ?thesis
    by (meson in_set_dropD set_dropWhileD)
qed

lemma search_ntax_semicolon: "search_with match_ntax s = Some a \<Longrightarrow> CHR '';'' \<in> set s"
proof (induction s)
  case Nil
  then show ?case using match_ntax_semicolon[of "[]" a] by simp
next
  case (Cons c s)
  then show ?case
    using match_ntax_semicolon[of "c # s" a]
    by (auto split: option.splits)
qed

lemma no_ntax_without_semicolon:
  "CHR '';'' \<notin> set l \<Longrightarrow> search_with match_ntax (lower l) = None"
  using search_ntax_semicolon[of "lower l"] semicolon_lower[of l]
  by (cases "search_with match_ntax (lower l)") auto

lemma keep_flag: "st_tip_flag s \<Longrightarrow> s\<lparr>st_tip_flag := True\<rparr> = s"
  by (cases s) simp

text \<open>
  C9. The claim is that a line of the translate block that does not have the shape of
  an id and a name is reported and never aborts the load. Every line, inside the block
  or not, is first searched for the tree pattern, and a line that matches it and holds
  no opening parenthesis raises ValueError: inside the block, \<open>tree abc1\<close> has not the
  shape of an id and a name, and it aborts the load.
\<close>

theorem translate_block_line_aborts_counterexample:
  "outcome (load_nexus one_leaf_engine strptime_numeric no_files
      (Handle [''Translate'', ''tree abc1'', '';'', ''tree TREE1 = (A,B);''])
      default_tip_search ''%Y-%m-%d'' default_tree_search True False False True)
    = Inl (ValueError ''substring not found'')
   \<and> search_with match_translation (strip_newline ''tree abc1'') = None"
proof -
  have "case outcome (load_nexus one_leaf_engine strptime_numeric no_files
      (Handle [''Translate'', ''tree abc1'', '';'', ''tree TREE1 = (A,B);''])
      default_tip_search ''%Y-%m-%d'' default_tree_search True False False True)
     of Inl e \<Rightarrow> e = ValueError ''substring not found'' | Inr v \<Rightarrow> False"
    by code_simp
  then have run: "outcome (load_nexus one_leaf_engine strptime_numeric no_files
      (Handle [''Translate'', ''tree abc1'', '';'', ''tree TREE1 = (A,B);''])
      default_tip_search ''%Y-%m-%d'' default_tree_search True False False True)
    = Inl (ValueError ''substring not found'')"
    by (rule Inl_by_case)
  have "search_with match_translation (strip_newline ''tree abc1'') = None"
    by code_simp
  with run show ?thesis by simp
qed

text \<open>
  C9, amended. Inside the translate block (the flag is set), a line without a semicolon
  that the tree pattern does not match never aborts the load: when it has not the shape
  of an id and a name it is printed to standard output, whatever \<open>verbose\<close> is, and
  the state is otherwise unchanged; when it has, the pair is stored in the translation
  table, the name without its quotes. The flag stays set, so the next line is still
  inside the block.
\<close>

theorem unmatched_translate_line_is_reported:
  assumes "st_tip_flag st"
    and "\<not> tree_search (lower (strip_newline line))"
    and "CHR '';'' \<notin> set (strip_newline line)"
  shows "nexus_step eng tree_search verbose st line =
           Inr (case search_with match_translation (strip_newline line) of
                  None \<Rightarrow>
                    st\<lparr>st_out := st_out st @
                       [''tip not captured by regex: '' @ filter (\<lambda>c. c \<noteq> CHR 0x09) (strip_newline line)]\<rparr>
                | Some (g1, g2) \<Rightarrow>
                    say verbose (''Identified tip translation '' @ g1 @ '': '' @
                                 strip_chars (CHR 0x27) (strip_chars (CHR 0x22) g2))
                      (st\<lparr>st_tips := dict_set (st_tips st) g1
                             (PStr (strip_chars (CHR 0x27) (strip_chars (CHR 0x22) g2)))\<rparr>))"
  using assms no_ntax_without_semicolon[OF assms(3)]
  by (auto simp add: nexus_step_def Let_def say_def keep_flag split: option.splits)

lemma unmatched_line_example:
  "\<not> default_tree_search (lower (strip_newline ''  no id on this line''))"
  "CHR '';'' \<notin> set (strip_newline ''  no id on this line'')"
  "search_with match_translation (strip_newline ''  no id on this line'') = None"
  "strip_newline ''  no id on this line'' = ''  no id on this line''"
  by code_simp+

theorem unmatched_translate_line_is_reported_witness:
  "st_tip_flag (nexus_init\<lparr>st_tip_flag := True\<rparr>)
   \<and> \<not> default_tree_search (lower (strip_newline ''  no id on this line''))
   \<and> CHR '';'' \<notin> set (strip_newline ''  no id on this line'')
   \<and> nexus_step one_leaf_engine default_tree_search False (nexus_init\<lparr>st_tip_flag := True\<rparr>)
        ''  no id on this line''
      = Inr (nexus_init\<lparr>st_tip_flag := True,
                         st_out := [''tip not captured by regex:   no id on this line'']\<rparr>)"
  using unmatched_translate_line_is_reported[of "nexus_init\<lparr>st_tip_flag := True\<rparr>" default_tree_search "''  no id on this line''"
      one_leaf_engine False] unmatched_line_example
  by (simp add: nexus_init_def)

section \<open>The handle of a failed load\<close>

lemma nexus_step_no_tree:
  assumes "\<not> tree_search (lower (strip_newline line))"
  shows "\<exists>st'. nexus_step eng tree_search verbose st line = Inr st' \<and> st_ll st' = st_ll st"
  using assms
  by (auto simp add: nexus_step_def Let_def say_def split: option.splits)

lemma nexus_scan_no_tree:
  assumes "\<forall>line \<in> set lines. \<not> tree_search (lower (strip_newline line))"
  shows "\<exists>st'. nexus_scan eng tree_search verbose lines st = Inr st' \<and> st_ll st' = st_ll st"
  using assms
proof (induction lines arbitrary: st)
  case Nil
  then show ?case by simp
next
  case (Cons line lines)
  then obtain st1 where s1: "nexus_step eng tree_search verbose st line = Inr st1" "st_ll st1 = st_ll st"
    using nexus_step_no_tree[of tree_search line eng verbose st] by auto
  from Cons obtain st2 where "nexus_scan eng tree_search verbose lines st1 = Inr st2" "st_ll st2 = st_ll st1"
    by (metis list.set_intros(2))
  with s1 show ?case by simp
qed

lemma newick_scan_no_paren:
  assumes "\<forall>line \<in> set lines. \<not> has_paren line"
  shows "newick_scan eng verbose lines st = Inr st"
  using assms by (induction lines) (cases st, simp)+

text \<open>
  C10. Given a path that opens, \<open>load_newick\<close> and \<open>load_nexus\<close> open the handle
  themselves, and the handle is closed exactly when the load returns a tree: every
  exception of the body leaves it open. That covers a calibration that finds no tip
  date; and a source in which no tree string is found ends in the AssertionError of
  the source, with the handle open.
\<close>

theorem failed_load_leaves_handle_open:
  assumes "fs p = Some lines"
  shows "opened_by_loader (load_newick eng strptime fs (Path p) tip_search date_fmt variable_date absolute_time verbose do_sort)
    \<and> (closed_by_loader (load_newick eng strptime fs (Path p) tip_search date_fmt variable_date absolute_time verbose do_sort)
        \<longleftrightarrow> \<not> isl (outcome (load_newick eng strptime fs (Path p) tip_search date_fmt variable_date absolute_time verbose do_sort)))
    \<and> opened_by_loader (load_nexus eng strptime fs (Path p) tip_search date_fmt tree_search variable_date absolute_time verbose do_sort)
    \<and> (closed_by_loader (load_nexus eng strptime fs (Path p) tip_search date_fmt tree_search variable_date absolute_time verbose do_sort)
        \<longleftrightarrow> \<not> isl (outcome (load_nexus eng strptime fs (Path p) tip_search date_fmt tree_search variable_date absolute_time verbose do_sort)))
    \<and> ((\<forall>line \<in> set lines. \<not> has_paren line) \<longrightarrow>
         outcome (load_newick eng strptime fs (Path p) tip_search date_fmt variable_date absolute_time verbose do_sort)
           = Inl (AssertionError no_tree_string))
    \<and> ((\<forall>line \<in> set lines. \<not> tree_search (lower (strip_newline line))) \<longrightarrow>
         outcome (load_nexus eng strptime fs (Path p) tip_search date_fmt tree_search variable_date absolute_time verbose do_sort)
           = Inl (AssertionError no_tree_string))"
proof -
  have general: "opened_by_loader (with_source fs (Path p) body)
      \<and> (closed_by_loader (with_source fs (Path p) body) \<longleftrightarrow> \<not> isl (outcome (with_source fs (Path p) body)))
      \<and> outcome (with_source fs (Path p) body) = body lines" for body :: "string list \<Rightarrow> error + (tree \<times> string list)"
    using assms
    by (simp add: with_source_def open_source_def is_path_def split: sum.splits)
  have nw: "(\<forall>line \<in> set lines. \<not> has_paren line) \<longrightarrow>
     newick_body eng strptime lines tip_search date_fmt variable_date absolute_time verbose do_sort
       = Inl (AssertionError no_tree_string)"
    by (simp add: newick_body_def newick_scan_no_paren)
  have nx: "(\<forall>line \<in> set lines. \<not> tree_search (lower (strip_newline line))) \<longrightarrow>
     nexus_body eng strptime lines tip_search date_fmt tree_search variable_date absolute_time verbose do_sort
       = Inl (AssertionError no_tree_string)"
  proof
    assume "\<forall>line \<in> set lines. \<not> tree_search (lower (strip_newline line))"
    from nexus_scan_no_tree[OF this, of eng verbose nexus_init]
    obtain st' where "nexus_scan eng tree_search verbose lines nexus_init = Inr st'" "st_ll st' = None"
      by (auto simp: nexus_init_def)
    then show "nexus_body eng strptime lines tip_search date_fmt tree_search variable_date absolute_time verbose do_sort
       = Inl (AssertionError no_tree_string)"
      by (simp add: nexus_body_def)
  qed
  show ?thesis
    unfolding load_newick_def load_nexus_def
    using general nw nx by simp
qed

lemma no_tip_dates_run:
  "outcome (load_newick one_leaf_engine strptime_numeric (single_file ''t.nwk'' [''(A,B);''])
      (Path ''t.nwk'') default_tip_search ''%Y-%m-%d'' True True False True)
    = Inl (AssertionError no_tip_dates)"
proof -
  have "case outcome (load_newick one_leaf_engine strptime_numeric (single_file ''t.nwk'' [''(A,B);''])
      (Path ''t.nwk'') default_tip_search ''%Y-%m-%d'' True True False True)
     of Inl e \<Rightarrow> e = AssertionError no_tip_dates | Inr v \<Rightarrow> False"
    by code_simp
  then show ?thesis by (rule Inl_by_case)
qed

theorem failed_load_leaves_handle_open_witness:
  "single_file ''t.nwk'' [''(A,B);''] ''t.nwk'' = Some [''(A,B);'']
   \<and> outcome (load_newick one_leaf_engine strptime_numeric (single_file ''t.nwk'' [''(A,B);''])
      (Path ''t.nwk'') default_tip_search ''%Y-%m-%d'' True True False True)
       = Inl (AssertionError no_tip_dates)
   \<and> opened_by_loader (load_newick one_leaf_engine strptime_numeric (single_file ''t.nwk'' [''(A,B);''])
      (Path ''t.nwk'') default_tip_search ''%Y-%m-%d'' True True False True)
   \<and> \<not> closed_by_loader (load_newick one_leaf_engine strptime_numeric (single_file ''t.nwk'' [''(A,B);''])
      (Path ''t.nwk'') default_tip_search ''%Y-%m-%d'' True True False True)"
proof -
  have f: "single_file ''t.nwk'' [''(A,B);''] ''t.nwk'' = Some [''(A,B);'']"
    by (simp add: single_file_def)
  show ?thesis
    using failed_load_leaves_handle_open[where fs="single_file ''t.nwk'' [''(A,B);'']" and p="''t.nwk''"
        and lines="[''(A,B);'']" and eng=one_leaf_engine and strptime=strptime_numeric
        and tip_search=default_tip_search and date_fmt="''%Y-%m-%d''" and variable_date=True
        and absolute_time=True and verbose=False and do_sort=True, OF f] f no_tip_dates_run
    by simp
qed

section \<open>Properties of the float model\<close>

text \<open>Rounding keeps a float on its side of every number of the grid it is rounded to:
  of an integer, and of a multiple of \<open>2 ^ - j\<close>, as long as the binade leaves \<open>j\<close>
  fractional bits.\<close>

lemma pow2_powi: "pow2 k = 2 powi k"
  by (simp add: pow2_def power_int_def field_simps)

lemma pow2_pos: "0 < pow2 k"
  by (simp add: pow2_powi)

lemma pow2_add: "pow2 (a + b) = pow2 a * pow2 b"
  by (simp add: pow2_powi power_int_add)

lemma pow2_nat: "pow2 (int n) = 2 ^ n"
  by (simp add: pow2_def)

lemma pow2_mono: "a \<le> b \<Longrightarrow> pow2 a \<le> pow2 b"
  by (simp add: pow2_powi power_int_increasing)

lemma pow2_less_D:
  assumes "pow2 a < pow2 b"
  shows "a < b"
proof (rule ccontr)
  assume "\<not> a < b"
  then have "pow2 b \<le> pow2 a" by (simp add: pow2_mono)
  with assms show False by simp
qed

lemma pow2_cancel: "pow2 k * pow2 (- k) = 1"
  using pow2_add[of k "- k"] by (simp add: pow2_def)

lemma round_half_even_ge:
  assumes "of_int m \<le> y"
  shows "m \<le> round_half_even y"
proof -
  have "m \<le> \<lfloor>y\<rfloor>" using assms by (simp add: le_floor_iff)
  then show ?thesis by (auto simp: round_half_even_def Let_def)
qed

lemma round_half_even_le:
  assumes "y \<le> of_int n"
  shows "round_half_even y \<le> n"
proof (cases "y = of_int \<lfloor>y\<rfloor>")
  case True
  then have "y - of_int \<lfloor>y\<rfloor> = 0" by simp
  then have "round_half_even y = \<lfloor>y\<rfloor>" by (simp add: round_half_even_def Let_def)
  moreover have "\<lfloor>y\<rfloor> \<le> n" using assms by (simp add: floor_le_iff)
  ultimately show ?thesis by simp
next
  case False
  moreover have "of_int \<lfloor>y\<rfloor> \<le> y" by (rule of_int_floor_le)
  ultimately have "of_int \<lfloor>y\<rfloor> < y" by linarith
  then have "of_int \<lfloor>y\<rfloor> < (of_int n :: rat)" using assms by simp
  then have "\<lfloor>y\<rfloor> < n" by simp
  then show ?thesis by (auto simp: round_half_even_def Let_def)
qed

lemma expo_le:
  assumes "x \<noteq> 0"
  shows "pow2 (expo x) \<le> \<bar>x\<bar>"
proof -
  obtain p q where pq: "quotient_of \<bar>x\<bar> = (p, q)" by (cases "quotient_of \<bar>x\<bar>")
  have q: "0 < q" using pq by (rule quotient_of_denom_pos)
  have ax: "\<bar>x\<bar> = of_int p / of_int q" using pq by (rule quotient_of_div)
  have "0 < \<bar>x\<bar>" using assms by simp
  then have p: "0 < p" using ax q by (simp add: zero_less_divide_iff)
  let ?d = "bitlen p - bitlen q"
  show ?thesis
  proof (cases "pow2 ?d \<le> \<bar>x\<bar>")
    case True
    then show ?thesis by (simp add: expo_def pq Let_def)
  next
    case False
    have bp: "2 ^ nat (bitlen p - 1) \<le> p" using bitlen_bounds[OF p] by simp
    have bq: "q < 2 ^ nat (bitlen q)" using bitlen_bounds[OF q] by simp
    have bp1: "1 \<le> bitlen p" using p by (simp add: bitlen_alt_def)
    have bq0: "0 \<le> bitlen q" by (rule bitlen_nonneg)
    have "pow2 (?d - 1) = pow2 (bitlen p - 1) * pow2 (- bitlen q)"
      using pow2_add[of "bitlen p - 1" "- bitlen q"] by (simp add: algebra_simps)
    also have "pow2 (bitlen p - 1) = 2 ^ nat (bitlen p - 1)"
      using bp1 by (simp add: pow2_def)
    also have "pow2 (- bitlen q) = 1 / 2 ^ nat (bitlen q)"
      using bq0 by (cases "bitlen q = 0") (simp_all add: pow2_def)
    finally have e: "pow2 (?d - 1) = 2 ^ nat (bitlen p - 1) / 2 ^ nat (bitlen q)" by simp
    have "(2::rat) ^ nat (bitlen p - 1) \<le> of_int p"
      using bp by (metis of_int_le_iff of_int_numeral of_int_power)
    moreover have "(of_int q :: rat) \<le> 2 ^ nat (bitlen q)"
      using bq by (metis less_imp_le of_int_le_iff of_int_numeral of_int_power)
    ultimately have "(2::rat) ^ nat (bitlen p - 1) / 2 ^ nat (bitlen q) \<le> of_int p / of_int q"
      using q p by (intro frac_le) simp_all
    then have "pow2 (?d - 1) \<le> \<bar>x\<bar>" using e ax by simp
    then show ?thesis using False by (simp add: expo_def pq Let_def)
  qed
qed

lemma expo_upper:
  assumes "x \<noteq> 0"
  shows "\<bar>x\<bar> < pow2 (expo x + 1)"
proof -
  obtain p q where pq: "quotient_of \<bar>x\<bar> = (p, q)" by (cases "quotient_of \<bar>x\<bar>")
  have q: "0 < q" using pq by (rule quotient_of_denom_pos)
  have ax: "\<bar>x\<bar> = of_int p / of_int q" using pq by (rule quotient_of_div)
  have "0 < \<bar>x\<bar>" using assms by simp
  then have p: "0 < p" using ax q by (simp add: zero_less_divide_iff)
  let ?d = "bitlen p - bitlen q"
  show ?thesis
  proof (cases "pow2 ?d \<le> \<bar>x\<bar>")
    case False
    then show ?thesis by (simp add: expo_def pq Let_def)
  next
    case True
    have bp: "p < 2 ^ nat (bitlen p)" using bitlen_bounds[OF p] by simp
    have bq: "2 ^ nat (bitlen q - 1) \<le> q" using bitlen_bounds[OF q] by simp
    have bq1: "1 \<le> bitlen q" using q by (simp add: bitlen_alt_def)
    have bp0: "0 \<le> bitlen p" by (rule bitlen_nonneg)
    have "pow2 (?d + 1) = pow2 (bitlen p) * pow2 (- (bitlen q - 1))"
      using pow2_add[of "bitlen p" "- (bitlen q - 1)"] by (simp add: algebra_simps)
    also have "pow2 (bitlen p) = 2 ^ nat (bitlen p)"
      using bp0 by (simp add: pow2_def)
    also have "pow2 (- (bitlen q - 1)) = 1 / 2 ^ nat (bitlen q - 1)"
      using bq1 by (cases "bitlen q = 1") (simp_all add: pow2_def)
    finally have e: "pow2 (?d + 1) = 2 ^ nat (bitlen p) / 2 ^ nat (bitlen q - 1)" by simp
    have "(of_int p :: rat) < 2 ^ nat (bitlen p)"
      using bp by (metis of_int_less_iff of_int_numeral of_int_power)
    moreover have "(2::rat) ^ nat (bitlen q - 1) \<le> of_int q"
      using bq by (metis of_int_le_iff of_int_numeral of_int_power)
    ultimately have "of_int p / of_int q < (2::rat) ^ nat (bitlen p) / 2 ^ nat (bitlen q - 1)"
      using q p by (intro frac_less) simp_all
    then have "\<bar>x\<bar> < pow2 (?d + 1)" using e ax by simp
    then show ?thesis using True by (simp add: expo_def pq Let_def)
  qed
qed

lemma round_half_even_error: "\<bar>of_int (round_half_even y) - y\<bar> \<le> 1 / 2"
proof -
  have "of_int \<lfloor>y\<rfloor> \<le> y" "y < of_int \<lfloor>y\<rfloor> + 1" by linarith+
  then show ?thesis
    by (auto simp: round_half_even_def Let_def abs_le_iff)
qed

lemma fl_error:
  assumes "x \<noteq> 0"
  shows "\<bar>fl x - x\<bar> \<le> pow2 (expo x - 53)"
proof -
  let ?k = "52 - expo x"
  let ?r = "of_int (round_half_even (x * pow2 ?k)) :: rat"
  have c: "pow2 ?k * pow2 (- ?k) = 1" by (rule pow2_cancel)
  have "fl x - x = ?r * pow2 (- ?k) - (x * pow2 ?k) * pow2 (- ?k)"
    using assms by (simp only: fl_def Let_def if_False mult.assoc c mult_1_right)
  also have "\<dots> = (?r - x * pow2 ?k) * pow2 (- ?k)" by (simp only: left_diff_distrib)
  finally have "\<bar>fl x - x\<bar> = \<bar>?r - x * pow2 ?k\<bar> * pow2 (- ?k)"
    using pow2_pos[of "- ?k"] by (simp add: abs_mult)
  also have "\<dots> \<le> (1 / 2) * pow2 (- ?k)"
    by (rule mult_right_mono[OF round_half_even_error less_imp_le[OF pow2_pos]])
  also have "\<dots> = pow2 (- 1) * pow2 (- ?k)" by (simp add: pow2_def)
  also have "\<dots> = pow2 (expo x - 53)"
    using pow2_add[of "- 1" "- ?k"] by (simp add: algebra_simps)
  finally show ?thesis .
qed

lemma fl_ge_grid:
  assumes "of_int m / 2 ^ j \<le> x" and "\<bar>x\<bar> < pow2 (53 - int j)"
  shows "of_int m / 2 ^ j \<le> fl x"
proof (cases "x = 0")
  case True
  then show ?thesis using assms by (simp add: fl_def)
next
  case False
  let ?k = "52 - expo x"
  have "pow2 (expo x) < pow2 (53 - int j)" using expo_le[OF False] assms(2) by simp
  then have "expo x < 53 - int j" by (rule pow2_less_D)
  then have kj: "int j \<le> ?k" by simp
  have split: "pow2 ?k = 2 ^ j * 2 ^ nat (?k - int j)"
    using kj pow2_add[of "int j" "?k - int j"] by (simp add: pow2_nat pow2_def)
  have "of_int (m * 2 ^ nat (?k - int j)) = (of_int m / 2 ^ j) * pow2 ?k"
    by (simp add: split)
  also have "\<dots> \<le> x * pow2 ?k"
    by (rule mult_right_mono[OF assms(1) less_imp_le[OF pow2_pos]])
  finally have "m * 2 ^ nat (?k - int j) \<le> round_half_even (x * pow2 ?k)"
    by (rule round_half_even_ge)
  then have "(of_int (m * 2 ^ nat (?k - int j)) :: rat) \<le> of_int (round_half_even (x * pow2 ?k))"
    by (simp only: of_int_le_iff)
  then have "of_int (m * 2 ^ nat (?k - int j)) * pow2 (- ?k) \<le> of_int (round_half_even (x * pow2 ?k)) * pow2 (- ?k)"
    by (rule mult_right_mono[OF _ less_imp_le[OF pow2_pos]])
  moreover have "of_int (m * 2 ^ nat (?k - int j)) * pow2 (- ?k) = of_int m / 2 ^ j"
  proof -
    have "of_int (m * 2 ^ nat (?k - int j)) * pow2 (- ?k) = (of_int m / 2 ^ j) * (pow2 ?k * pow2 (- ?k))"
      by (simp add: split)
    also have "\<dots> = of_int m / 2 ^ j"
      by (simp only: pow2_cancel mult_1_right)
    finally show ?thesis .
  qed
  ultimately show ?thesis using False by (simp add: fl_def Let_def)
qed

lemma fl_le_grid:
  assumes "x \<le> of_int m / 2 ^ j" and "\<bar>x\<bar> < pow2 (53 - int j)"
  shows "fl x \<le> of_int m / 2 ^ j"
proof (cases "x = 0")
  case True
  then show ?thesis using assms by (simp add: fl_def)
next
  case False
  let ?k = "52 - expo x"
  have "pow2 (expo x) < pow2 (53 - int j)" using expo_le[OF False] assms(2) by simp
  then have "expo x < 53 - int j" by (rule pow2_less_D)
  then have kj: "int j \<le> ?k" by simp
  have split: "pow2 ?k = 2 ^ j * 2 ^ nat (?k - int j)"
    using kj pow2_add[of "int j" "?k - int j"] by (simp add: pow2_nat pow2_def)
  have "x * pow2 ?k \<le> (of_int m / 2 ^ j) * pow2 ?k"
    by (rule mult_right_mono[OF assms(1) less_imp_le[OF pow2_pos]])
  also have "\<dots> = of_int (m * 2 ^ nat (?k - int j))"
    by (simp add: split)
  finally have "round_half_even (x * pow2 ?k) \<le> m * 2 ^ nat (?k - int j)"
    by (rule round_half_even_le)
  then have "(of_int (round_half_even (x * pow2 ?k)) :: rat) \<le> of_int (m * 2 ^ nat (?k - int j))"
    by (simp only: of_int_le_iff)
  then have "of_int (round_half_even (x * pow2 ?k)) * pow2 (- ?k) \<le> of_int (m * 2 ^ nat (?k - int j)) * pow2 (- ?k)"
    by (rule mult_right_mono[OF _ less_imp_le[OF pow2_pos]])
  moreover have "of_int (m * 2 ^ nat (?k - int j)) * pow2 (- ?k) = of_int m / 2 ^ j"
  proof -
    have "of_int (m * 2 ^ nat (?k - int j)) * pow2 (- ?k) = (of_int m / 2 ^ j) * (pow2 ?k * pow2 (- ?k))"
      by (simp add: split)
    also have "\<dots> = of_int m / 2 ^ j"
      by (simp only: pow2_cancel mult_1_right)
    finally show ?thesis .
  qed
  ultimately show ?thesis using False by (simp add: fl_def Let_def)
qed

lemma fl_int:
  assumes "\<bar>of_int n :: rat\<bar> < 2 ^ 53"
  shows "fl (of_int n) = of_int n"
proof -
  have b: "\<bar>of_int n :: rat\<bar> < pow2 (53 - int 0)" using assms by (simp add: pow2_def)
  have "of_int n / 2 ^ 0 \<le> fl (of_int n)" by (rule fl_ge_grid[OF _ b]) simp
  moreover have "fl (of_int n) \<le> of_int n / 2 ^ 0" by (rule fl_le_grid[OF _ b]) simp
  ultimately show ?thesis by simp
qed

section \<open>Properties of the calendar\<close>

lemma div_step_gen:
  fixes y k :: int
  assumes "0 < k"
  shows "y div k - (y - 1) div k = (if y mod k = 0 then 1 else 0)"
proof -
  have k0: "k \<noteq> 0" using assms by simp
  have "y - 1 = (y mod k - 1) + (y div k) * k" by (simp add: algebra_simps)
  then have "(y - 1) div k = ((y mod k - 1) + (y div k) * k) div k" by (simp only:)
  also have "\<dots> = (y mod k - 1) div k + y div k"
    using k0 by simp
  finally have step: "(y - 1) div k = (y mod k - 1) div k + y div k" .
  show ?thesis
  proof (cases "y mod k = 0")
    case True
    have "(- 1) div k = - 1" using assms by (rule div_eq_minus1)
    then show ?thesis using True step by simp
  next
    case False
    have "0 \<le> y mod k" using assms by simp
    with False have pos: "0 \<le> y mod k - 1" by simp
    have "y mod k - 1 < k" using pos_mod_bound[OF assms, of y] by simp
    with pos have "(y mod k - 1) div k = 0" by (simp add: div_pos_pos_trivial)
    then show ?thesis using False step by simp
  qed
qed

lemma year_length: "days_before_year (y + 1) - days_before_year y = days_in_year y"
proof -
  have "days_before_year (y + 1) - days_before_year y
      = 365 + (y div 4 - (y - 1) div 4) - (y div 100 - (y - 1) div 100) + (y div 400 - (y - 1) div 400)"
    by (simp add: days_before_year_def Let_def algebra_simps)
  also have "\<dots> = 365 + (if y mod 4 = 0 then 1 else 0) - (if y mod 100 = 0 then 1 else 0) + (if y mod 400 = 0 then 1 else 0)"
    by (simp only: div_step_gen[of 4 y] div_step_gen[of 100 y] div_step_gen[of 400 y] zero_less_numeral simp_thms if_True)
  also have "\<dots> = days_in_year y"
  proof -
    have a: "y mod 100 = 0 \<Longrightarrow> y mod 4 = 0"
      using mod_mod_cancel[of 4 100 y] by simp
    have b: "y mod 400 = 0 \<Longrightarrow> y mod 100 = 0"
      using mod_mod_cancel[of 100 400 y] by simp
    show ?thesis using a b by (auto simp: days_in_year_def is_leap_def)
  qed
  finally show ?thesis .
qed

lemma month_cases:
  assumes "1 \<le> m" "m \<le> (12::int)"
  shows "m = 1 \<or> m = 2 \<or> m = 3 \<or> m = 4 \<or> m = 5 \<or> m = 6 \<or> m = 7 \<or> m = 8 \<or> m = 9 \<or> m = 10 \<or> m = 11 \<or> m = 12"
  using assms by arith

lemma day_of_year_bounds:
  assumes "valid_date y m d"
  shows "1 \<le> days_before_month y m + d \<and> days_before_month y m + d \<le> days_in_year y"
proof -
  have m: "1 \<le> m" "m \<le> 12" and d: "1 \<le> d" "d \<le> days_in_month y m"
    using assms by (simp_all add: valid_date_def)
  from month_cases[OF m] show ?thesis
    using d by (elim disjE) (auto simp: days_before_month_def days_in_month_def days_in_year_def split: if_splits)
qed

section \<open>Properties of decimal_date\<close>

lemma total_seconds_bounds:
  assumes "0 \<le> e" and "e \<le> w * 1000000" and "w < 2 ^ 53"
  shows "0 \<le> total_seconds e \<and> total_seconds e \<le> of_int w"
proof -
  let ?x = "of_int e / 1000000 :: rat"
  have lo: "of_int 0 / 2 ^ 0 \<le> ?x" using assms(1) by simp
  have hi: "?x \<le> of_int w / 2 ^ 0" using assms(2)
    by (simp add: divide_le_eq)
  have "of_int w < (2 ^ 53 :: rat)" using assms(3)
    by (metis of_int_less_iff of_int_numeral of_int_power)
  then have b: "\<bar>?x\<bar> < pow2 (53 - int 0)" using lo hi by (simp add: pow2_def)
  show ?thesis
    using fl_ge_grid[OF lo b] fl_le_grid[OF hi b] by (simp add: total_seconds_def)
qed

lemma total_seconds_whole:
  assumes "\<bar>s\<bar> < 2 ^ 53"
  shows "total_seconds (s * 1000000) = of_int s"
proof -
  have "\<bar>of_int s :: rat\<bar> < 2 ^ 53" using assms
    by (metis of_int_abs of_int_less_iff of_int_numeral of_int_power)
  then show ?thesis by (simp add: total_seconds_def fl_int)
qed

lemma fl_unit_interval:
  assumes "0 \<le> x" "x \<le> 1"
  shows "0 \<le> fl x \<and> fl x \<le> 1"
proof -
  have lo: "of_int 0 / 2 ^ 0 \<le> x" using assms by simp
  have hi: "x \<le> of_int 1 / 2 ^ 0" using assms by simp
  have b: "\<bar>x\<bar> < pow2 (53 - int 0)" using assms by (simp add: pow2_def)
  show ?thesis using fl_ge_grid[OF lo b] fl_le_grid[OF hi b] by simp
qed

lemma fl_year_interval:
  assumes "0 \<le> q" "q \<le> 1" "1 \<le> y" "y \<le> 9999"
  shows "of_int y \<le> fl (of_int y + q) \<and> fl (of_int y + q) \<le> of_int y + 1"
proof -
  let ?x = "of_int y + q :: rat"
  have lo: "of_int y / 2 ^ 0 \<le> ?x" using assms by simp
  have hi: "?x \<le> of_int (y + 1) / 2 ^ 0" using assms by simp
  have "(of_int y :: rat) \<le> 9999" using assms(4) by (metis of_int_le_iff of_int_numeral)
  moreover have "(1 :: rat) \<le> of_int y" using assms(3) by (metis of_int_le_iff of_int_1)
  ultimately have b: "\<bar>?x\<bar> < pow2 (53 - int 0)" using assms(1,2) by (simp add: pow2_def)
  show ?thesis using fl_ge_grid[OF lo b] fl_le_grid[OF hi b] by simp
qed

lemma fl_below_one:
  assumes "0 \<le> x" "x \<le> 1 - 1 / 2 ^ 25"
  shows "fl x \<le> 1 - 1 / 2 ^ 25"
proof -
  have hi: "x \<le> of_int (2 ^ 25 - 1) / 2 ^ 25" using assms by simp
  have b: "\<bar>x\<bar> < pow2 (53 - int 25)" using assms by (simp add: pow2_def)
  show ?thesis using fl_le_grid[OF hi b] by simp
qed

lemma fl_year_strict:
  assumes "0 \<le> q" "q \<le> 1 - 1 / 2 ^ 25" "1 \<le> y" "y \<le> 9999"
  shows "fl (of_int y + q) < of_int y + 1"
proof -
  let ?x = "of_int y + q :: rat"
  have "?x \<le> of_int y + 1 - 1 / 2 ^ 25" using assms by simp
  also have "\<dots> = of_int ((y + 1) * 2 ^ 25 - 1) / 2 ^ 25" by (simp add: field_simps)
  finally have hi: "?x \<le> of_int ((y + 1) * 2 ^ 25 - 1) / 2 ^ 25" .
  have "(of_int y :: rat) \<le> 9999" using assms(4) by (metis of_int_le_iff of_int_numeral)
  moreover have "(1 :: rat) \<le> of_int y" using assms(3) by (metis of_int_le_iff of_int_1)
  ultimately have b: "\<bar>?x\<bar> < pow2 (53 - int 25)" using assms(1,2) by (simp add: pow2_def)
  have "fl ?x \<le> of_int ((y + 1) * 2 ^ 25 - 1) / 2 ^ 25" by (rule fl_le_grid[OF hi b])
  also have "\<dots> = of_int y + 1 - 1 / 2 ^ 25" by (simp add: field_simps)
  also have "\<dots> < of_int y + 1" by simp
  finally show ?thesis .
qed

lemma fractional_year_bounds:
  assumes v: "valid_datetime t" and naive: "dt_tz t = None" and lt: "dt_year t < MAXYEAR"
  shows "\<exists>x. fractional_year t = Inr (PFloat x)
           \<and> of_int (dt_year t) \<le> x \<and> x \<le> of_int (dt_year t) + 1
           \<and> (dt_microsecond t = 0 \<longrightarrow> x < of_int (dt_year t) + 1)"
proof -
  define y where "y = dt_year t"
  have vd: "valid_date y (dt_month t) (dt_day t)"
    and vt: "valid_time (dt_hour t) (dt_minute t) (dt_second t) (dt_microsecond t)"
    using v by (simp_all add: valid_datetime_def y_def)
  have yr: "1 \<le> y" "y \<le> 9998"
    using vd lt by (simp_all add: valid_date_def MINYEAR_def MAXYEAR_def y_def)
  define D where "D = days_before_month y (dt_month t) + dt_day t - 1"
  have D: "0 \<le> D" "D \<le> days_in_year y - 1"
    using day_of_year_bounds[OF vd] by (simp_all add: D_def)
  define sod where "sod = seconds_of_day t"
  have sod: "0 \<le> sod" "sod \<le> 86399"
    using vt by (simp_all add: sod_def seconds_of_day_def valid_time_def)
  define S where "S = D * 86400 + sod"
  define W where "W = days_in_year y * 86400"
  have Wv: "W = 31536000 \<or> W = 31622400"
    by (simp add: W_def days_in_year_def)
  have S: "0 \<le> S" "S \<le> W - 1"
    using D sod by (simp_all add: S_def W_def)
  have us: "0 \<le> dt_microsecond t" "dt_microsecond t \<le> 999999"
    using vt by (simp_all add: valid_time_def)
  define E where "E = S * 1000000 + dt_microsecond t"
  have E: "0 \<le> E" "E \<le> W * 1000000"
    using S us by (simp_all add: E_def)
  define b where "b = \<lparr>dt_year = y, dt_month = 1, dt_day = 1, dt_hour = 0, dt_minute = 0,
                dt_second = 0, dt_microsecond = 0, dt_tz = None\<rparr>"
  define e where "e = \<lparr>dt_year = y + 1, dt_month = 1, dt_day = 1, dt_hour = 0, dt_minute = 0,
                dt_second = 0, dt_microsecond = 0, dt_tz = None\<rparr>"
  have boy: "datetime_new y 1 1 0 0 0 0 = Inr b"
    using yr by (simp add: datetime_new_def valid_date_def valid_time_def days_in_month_def
        MINYEAR_def MAXYEAR_def b_def)
  have eoy: "datetime_new (y + 1) 1 1 0 0 0 0 = Inr e"
    using yr by (simp add: datetime_new_def valid_date_def valid_time_def days_in_month_def
        MINYEAR_def MAXYEAR_def e_def)
  have ordb: "toordinal b = days_before_year y + 1"
    by (simp add: toordinal_def ymd2ord_def days_before_month_def b_def)
  have orde: "toordinal e = days_before_year (y + 1) + 1"
    by (simp add: toordinal_def ymd2ord_def days_before_month_def e_def)
  have ordt: "toordinal t = days_before_year y + D + 1"
    by (simp add: toordinal_def ymd2ord_def D_def y_def)
  have sub1: "datetime_sub t b = Inr E"
    using naive ordb ordt
    by (simp add: datetime_sub_def Let_def E_def S_def sod_def b_def seconds_of_day_def)
  have "toordinal e - toordinal b = days_in_year y"
    using year_length[of y] ordb orde by simp
  then have sub2: "datetime_sub e b = Inr (W * 1000000)"
    by (simp add: datetime_sub_def Let_def W_def b_def e_def seconds_of_day_def)
  have W53: "\<bar>W\<bar> < 2 ^ 53" "W < 2 ^ 53" using Wv by auto
  have tw: "total_seconds (W * 1000000) = of_int W"
    by (rule total_seconds_whole[OF W53(1)])
  have Wpos: "(0 :: rat) < of_int W" using Wv by auto
  have ta: "0 \<le> total_seconds E" "total_seconds E \<le> of_int W"
    using total_seconds_bounds[OF E W53(2)] by simp_all
  define q where "q = fl (total_seconds E / of_int W)"
  have ratio: "0 \<le> total_seconds E / of_int W" "total_seconds E / of_int W \<le> 1"
    using ta Wpos by (simp_all add: divide_le_eq)
  have q01: "0 \<le> q" "q \<le> 1"
    using fl_unit_interval[OF ratio] by (simp_all add: q_def)
  have val: "fractional_year t = Inr (PFloat (fl (of_int y + q)))"
    using boy eoy sub1 sub2 tw Wpos
    by (simp add: fractional_year_def Let_def q_def y_def[symmetric])
  have y9999: "y \<le> 9999" using yr by simp
  have closed: "of_int y \<le> fl (of_int y + q)" "fl (of_int y + q) \<le> of_int y + 1"
    using fl_year_interval[OF q01 yr(1) y9999] by simp_all
  have strict: "fl (of_int y + q) < of_int y + 1" if z: "dt_microsecond t = 0"
  proof -
    have ES: "E = S * 1000000" using z by (simp add: E_def)
    have "\<bar>S\<bar> < 2 ^ 53" using S Wv by auto
    then have a: "total_seconds E = of_int S"
      unfolding ES by (rule total_seconds_whole)
    have "(of_int S :: rat) \<le> of_int W - 1" using S(2) by (metis of_int_1 of_int_diff of_int_le_iff)
    then have "total_seconds E / of_int W \<le> (of_int W - 1) / of_int W"
      using a Wpos by (simp add: divide_right_mono)
    also have "\<dots> = 1 - 1 / of_int W" using Wpos by (simp add: field_simps)
    also have "\<dots> \<le> 1 - 1 / 2 ^ 25"
    proof -
      have "(of_int W :: rat) \<le> 2 ^ 25" using Wv by auto
      then have "1 / (2 ^ 25 :: rat) \<le> 1 / of_int W" using Wpos by (simp add: frac_le)
      then show ?thesis by simp
    qed
    finally have "total_seconds E / of_int W \<le> 1 - 1 / 2 ^ 25" .
    then have "q \<le> 1 - 1 / 2 ^ 25"
      unfolding q_def using ratio(1) by (intro fl_below_one)
    then show ?thesis using q01(1) yr(1) y9999 by (intro fl_year_strict)
  qed
  show ?thesis
    using val closed strict by (auto simp: y_def)
qed

lemma decimal_date_runs:
  "decimal_date strptime_numeric ''2020'' ''%Y'' False = Inr (PFloat 2020)"
  "decimal_date strptime_numeric ''2020-07'' ''%Y-%m-%d'' True
     = Inr (PFloat (4443120479582555 / 2199023255552))"
  "decimal_date strptime_numeric ''2021-01-01'' ''%Y-%m-%d'' False = Inr (PFloat 2021)"
  "decimal_date strptime_numeric ''2020-12-31 23:59:59.999999'' ''%Y-%m-%d %H:%M:%S.%f'' False
     = Inr (PFloat 2021)"
  "decimal_date strptime_numeric ''9999-06-01'' ''%Y-%m-%d'' False
     = Inl (ValueError ''datetime field out of range'')"
  "decimal_date strptime_numeric ''2020-07-02'' ''%Y-%m-%d'' True = Inr (PFloat (4041 / 2))"
  by code_simp+

lemma strptime_runs:
  "strptime_numeric ''2020-12-31 23:59:59.999999'' ''%Y-%m-%d %H:%M:%S.%f''
     = Inr \<lparr>dt_year = 2020, dt_month = 12, dt_day = 31, dt_hour = 23, dt_minute = 59,
            dt_second = 59, dt_microsecond = 999999, dt_tz = None\<rparr>"
  "strptime_numeric ''9999-06-01'' ''%Y-%m-%d''
     = Inr \<lparr>dt_year = 9999, dt_month = 6, dt_day = 1, dt_hour = 0, dt_minute = 0,
            dt_second = 0, dt_microsecond = 0, dt_tz = None\<rparr>"
  "strptime_numeric ''2020-07-02'' ''%Y-%m-%d''
     = Inr \<lparr>dt_year = 2020, dt_month = 7, dt_day = 2, dt_hour = 0, dt_minute = 0,
            dt_second = 0, dt_microsecond = 0, dt_tz = None\<rparr>"
  by code_simp+

text \<open>
  C7. The claim is that, with \<open>variable\<close> set, the number of fields of the date decides
  how many trailing fields of the format are dropped, for every date and format. Where
  the format holds a delimiter this is what the code does: the date is parsed with the
  format cut by one field when the date has two fields, by two when it has one, and as
  it is otherwise; \<open>2020-07\<close> under \<open>%Y-%m-%d\<close> is parsed with \<open>%Y-%m\<close>. Where the
  format holds no delimiter, the code takes the date for a year alone (\<open>dateL = 1\<close>) and
  then calls \<open>join\<close> on \<open>None\<close>: the year \<open>2020\<close> under the format \<open>%Y\<close>, which parses
  without \<open>variable\<close>, raises AttributeError with it.
\<close>

theorem variable_date_needs_a_delimiter:
  "decimal_date strptime date fmt True =
     (if fmt = [] then Inr (PStr date)
      else case find_delimiter fmt of
             None \<Rightarrow> Inl (AttributeError ''join'')
           | Some d \<Rightarrow>
               then_do
                 (strptime date
                    (if length (split_on d date) = 2 then join [d] (butlast (split_on d fmt))
                     else if length (split_on d date) = 1
                       then join [d] (butlast (butlast (split_on d fmt)))
                     else fmt))
                 fractional_year)
   \<and> decimal_date strptime ''2020'' ''%Y'' True = Inl (AttributeError ''join'')
   \<and> decimal_date strptime_numeric ''2020'' ''%Y'' False = Inr (PFloat 2020)
   \<and> decimal_date strptime_numeric ''2020-07'' ''%Y-%m-%d'' True
       = Inr (PFloat (4443120479582555 / 2199023255552))"
proof -
  have nodelim: "find_delimiter ''%Y'' = None" by code_simp
  have general: "decimal_date strptime date fmt True =
     (if fmt = [] then Inr (PStr date)
      else case find_delimiter fmt of
             None \<Rightarrow> Inl (AttributeError ''join'')
           | Some d \<Rightarrow>
               then_do
                 (strptime date
                    (if length (split_on d date) = 2 then join [d] (butlast (split_on d fmt))
                     else if length (split_on d date) = 1
                       then join [d] (butlast (butlast (split_on d fmt)))
                     else fmt))
                 fractional_year)" for date fmt
    by (simp add: decimal_date_def reduce_format_def Let_def split: option.splits)
  show ?thesis
    using general[of date fmt] general[of "''2020''" "''%Y''"] nodelim
    by (simp add: decimal_date_runs)
qed

text \<open>
  C8. The claim is that every date that parses gives a decimal date in \<open>[year, year + 1)\<close>.
  The last microsecond of 2020 parses, to an instant of the year 2020, and its decimal
  date is 2021.0: the quotient of the two durations is a float below 1, and adding
  2020 to it rounds to 2021. And a date of the year 9999 parses, but the start of the
  next year is no \<open>datetime\<close>: the call raises ValueError.
\<close>

theorem decimal_date_reaches_next_year_counterexample:
  "strptime_numeric ''2020-12-31 23:59:59.999999'' ''%Y-%m-%d %H:%M:%S.%f''
     = Inr \<lparr>dt_year = 2020, dt_month = 12, dt_day = 31, dt_hour = 23, dt_minute = 59,
            dt_second = 59, dt_microsecond = 999999, dt_tz = None\<rparr>
   \<and> decimal_date strptime_numeric ''2020-12-31 23:59:59.999999'' ''%Y-%m-%d %H:%M:%S.%f'' False
     = Inr (PFloat 2021)
   \<and> strptime_numeric ''9999-06-01'' ''%Y-%m-%d''
     = Inr \<lparr>dt_year = 9999, dt_month = 6, dt_day = 1, dt_hour = 0, dt_minute = 0,
            dt_second = 0, dt_microsecond = 0, dt_tz = None\<rparr>
   \<and> decimal_date strptime_numeric ''9999-06-01'' ''%Y-%m-%d'' False
     = Inl (ValueError ''datetime field out of range'')"
  by (simp add: decimal_date_runs strptime_runs)

text \<open>
  C8, amended. For a date that parses, under the format as \<open>variable\<close> leaves it, to a
  naive instant of a year before 9999, \<open>decimal_date\<close> returns a float \<open>x\<close> with
  \<open>year \<le> x \<le> year + 1\<close>, and \<open>x < year + 1\<close> when the instant has no microseconds.
  At the start of a year it is exact: \<open>decimal_date("2021-01-01")\<close> is 2021.0.
\<close>

theorem decimal_date_within_year:
  assumes "fmt \<noteq> []"
    and "(if variable then reduce_format (find_delimiter fmt) date fmt else Inr fmt) = Inr fmt'"
    and "strptime date fmt' = Inr t"
    and "valid_datetime t" and "dt_tz t = None" and "dt_year t < MAXYEAR"
  shows "(\<exists>x. decimal_date strptime date fmt variable = Inr (PFloat x)
            \<and> of_int (dt_year t) \<le> x \<and> x \<le> of_int (dt_year t) + 1
            \<and> (dt_microsecond t = 0 \<longrightarrow> x < of_int (dt_year t) + 1))
         \<and> decimal_date strptime_numeric ''2021-01-01'' ''%Y-%m-%d'' False = Inr (PFloat 2021)"
proof -
  have "decimal_date strptime date fmt variable = fractional_year t"
    using assms(1,2,3) by (simp add: decimal_date_def Let_def)
  then show ?thesis
    using fractional_year_bounds[OF assms(4,5,6)] by (simp add: decimal_date_runs)
qed

lemma within_year_example:
  "reduce_format (find_delimiter ''%Y-%m-%d'') ''2020-07-02'' ''%Y-%m-%d'' = Inr ''%Y-%m-%d''"
  "valid_datetime \<lparr>dt_year = 2020, dt_month = 7, dt_day = 2, dt_hour = 0, dt_minute = 0,
            dt_second = 0, dt_microsecond = 0, dt_tz = None\<rparr>"
  by code_simp+

theorem decimal_date_within_year_witness:
  "strptime_numeric ''2020-07-02'' ''%Y-%m-%d''
     = Inr \<lparr>dt_year = 2020, dt_month = 7, dt_day = 2, dt_hour = 0, dt_minute = 0,
            dt_second = 0, dt_microsecond = 0, dt_tz = None\<rparr>
   \<and> decimal_date strptime_numeric ''2020-07-02'' ''%Y-%m-%d'' True = Inr (PFloat (4041 / 2))
   \<and> (2020 :: rat) \<le> 4041 / 2 \<and> (4041 / 2 :: rat) < 2020 + 1"
proof -
  let ?t = "\<lparr>dt_year = 2020, dt_month = 7, dt_day = 2, dt_hour = 0, dt_minute = 0,
            dt_second = 0, dt_microsecond = 0, dt_tz = None\<rparr>"
  have f: "''%Y-%m-%d'' \<noteq> []" by simp
  have r: "(if True then reduce_format (find_delimiter ''%Y-%m-%d'') ''2020-07-02'' ''%Y-%m-%d''
            else Inr ''%Y-%m-%d'') = Inr ''%Y-%m-%d''"
    by (simp add: within_year_example)
  have p: "strptime_numeric ''2020-07-02'' ''%Y-%m-%d'' = Inr ?t"
    by (simp add: strptime_runs)
  have tz: "dt_tz ?t = None" by simp
  have yr: "dt_year ?t < MAXYEAR" by (simp add: MAXYEAR_def)
  from decimal_date_within_year[where strptime = strptime_numeric and date = "''2020-07-02''"
      and fmt = "''%Y-%m-%d''" and fmt' = "''%Y-%m-%d''" and variable = True and t = ?t,
      OF f r p within_year_example(2) tz yr]
  obtain x where "decimal_date strptime_numeric ''2020-07-02'' ''%Y-%m-%d'' True = Inr (PFloat x)"
    and "of_int (dt_year ?t) \<le> x" and "dt_microsecond ?t = 0 \<longrightarrow> x < of_int (dt_year ?t) + 1"
    by blast
  then show ?thesis
    using p by (simp add: decimal_date_runs)
qed

end
